theory Spec2Isabelle
  imports Main "HOL-Library.Word" "HOL-Library.Signed_Division" "HOL-Library.AList"
begin

unbundle bit_operations_syntax

section \<open>Basic types\<close>

text \<open>
  Go's \<^verbatim>\<open>uint64\<close> and \<^verbatim>\<open>byte\<close> are machine words. A \<^verbatim>\<open>time.Time\<close> is a
  number of nanoseconds on one time line and a \<^verbatim>\<open>time.Duration\<close> a signed number
  of nanoseconds, so \<^verbatim>\<open>t.Add(d)\<close> is \<open>t + d\<close>, \<^verbatim>\<open>a.Before(b)\<close> is \<open>a < b\<close> and
  \<^verbatim>\<open>a.After(b)\<close> is \<open>b < a\<close>.
\<close>

type_synonym u64 = "64 word"
type_synonym byte = "8 word"
type_synonym Time = int
type_synonym Duration = int

text \<open>A Go \<^verbatim>\<open>panic\<close> ends the call; it is the \<open>Inl\<close> of a sum.\<close>

datatype panic = Panic string

section \<open>ProposalContext (peer.go)\<close>

type_synonym ProposalContext = byte

definition ProposalContextSyncLog :: ProposalContext where
  "ProposalContextSyncLog = 1"

definition ProposalContextSplit :: ProposalContext where
  "ProposalContextSplit = push_bit 1 1"

definition ProposalContextPrepareMerge :: ProposalContext where
  "ProposalContextPrepareMerge = push_bit 2 1"

definition ProposalContext_ToBytes :: "ProposalContext \<Rightarrow> byte list" where
  "ProposalContext_ToBytes c = [c]"

text \<open>\<^verbatim>\<open>NewProposalContextFromBytes\<close> returns a pointer: \<open>None\<close> is Go's \<^verbatim>\<open>nil\<close>.\<close>

definition NewProposalContextFromBytes :: "byte list \<Rightarrow> panic + ProposalContext option" where
  "NewProposalContextFromBytes ctx =
     (let l = length ctx in
      if l = 0 then Inr None
      else if l = 1 then Inr (Some (ctx ! 0))
      else Inl (Panic ''Invalid ProposalContext''))"

definition ProposalContext_contains :: "ProposalContext \<Rightarrow> ProposalContext \<Rightarrow> bool" where
  "ProposalContext_contains c flag = (c AND flag \<noteq> 0)"

definition ProposalContext_insert :: "ProposalContext \<Rightarrow> ProposalContext \<Rightarrow> ProposalContext" where
  "ProposalContext_insert c flag = c OR flag"

section \<open>Errors and protobuf messages\<close>

text \<open>
  The error values the modelled code builds. \<open>Errorf\<close> stands for \<^verbatim>\<open>fmt.Errorf\<close>,
  \<^verbatim>\<open>errors.Errorf\<close> and \<^verbatim>\<open>errors.New\<close>; it keeps the fixed part of the message
  (the formatted arguments are left out). \<^verbatim>\<open>ErrEpochNotMatch\<close> is kept without its
  message text.
\<close>

datatype error =
    ErrRegionNotFound u64
  | ErrStaleCommand
  | ErrEpochNotMatch
  | ErrNotLeader u64
  | ErrRaftEntryTooLarge u64 u64
  | Errorf string

datatype PeerRole = PeerRole_Voter | PeerRole_Learner

record metapb_Peer =
  Peer_Id :: u64
  Peer_StoreId :: u64
  Peer_Role :: PeerRole

record RegionEpoch =
  ConfVer :: u64
  Version :: u64

text \<open>
  A region held by a peer always carries its epoch (the code reads
  \<^verbatim>\<open>region.RegionEpoch.Version\<close> without a nil check), so the field is not optional here.
\<close>

record Region =
  Region_Id :: u64
  StartKey :: "byte list"
  EndKey :: "byte list"
  Region_RegionEpoch :: RegionEpoch
  Peers :: "metapb_Peer list"

text \<open>\<^verbatim>\<open>kvrpcpb.Context\<close>, the fields the leader checker reads. Pointers are options.\<close>

record Context =
  Ctx_RegionId :: u64
  Ctx_RegionEpoch :: "RegionEpoch option"
  Ctx_Peer :: "metapb_Peer option"
  Ctx_Term :: u64
  Ctx_SyncLog :: bool

record RaftRequestHeader =
  Hdr_RegionId :: u64
  Hdr_Peer :: "metapb_Peer option"
  Hdr_ReadQuorum :: bool
  Hdr_RegionEpoch :: "RegionEpoch option"
  Hdr_Term :: u64
  Hdr_SyncLog :: bool

datatype CmdType =
    CmdType_Invalid | CmdType_Get | CmdType_Put | CmdType_Delete | CmdType_Snap
  | CmdType_Prewrite | CmdType_DeleteRange | CmdType_IngestSST | CmdType_ReadIndex

record Request =
  CmdType :: CmdType

datatype AdminCmdType =
    AdminCmdType_InvalidAdmin | AdminCmdType_ChangePeer | AdminCmdType_Split
  | AdminCmdType_CompactLog | AdminCmdType_TransferLeader | AdminCmdType_ComputeHash
  | AdminCmdType_VerifyHash | AdminCmdType_PrepareMerge | AdminCmdType_CommitMerge
  | AdminCmdType_RollbackMerge | AdminCmdType_BatchSplit

datatype ConfChangeType =
    ConfChangeType_AddNode | ConfChangeType_RemoveNode | ConfChangeType_AddLearnerNode

record ChangePeerRequest =
  ChangeType :: ConfChangeType
  CP_Peer :: "metapb_Peer option"

record TransferLeaderRequest =
  TL_Peer :: "metapb_Peer option"

record PrepareMergeRequest =
  MinIndex :: u64

record AdminRequest =
  Admin_CmdType :: AdminCmdType
  ChangePeer :: "ChangePeerRequest option"
  TransferLeader :: "TransferLeaderRequest option"
  PrepareMerge :: "PrepareMergeRequest option"

record RaftCmdRequest =
  Header :: "RaftRequestHeader option"
  Requests :: "Request list"
  AdminRequest :: "AdminRequest option"

record RaftResponseHeader =
  Resp_Error :: "error option"
  CurrentTerm :: u64

record Response =
  Resp_CmdType :: CmdType

record RaftCmdResponse =
  Resp_Header :: RaftResponseHeader
  Responses :: "Response list"
  AdminResponse :: "AdminCmdType option"

section \<open>Lease\<close>

text \<open>
  Modelled from the spec: the \<^verbatim>\<open>Lease\<close> and \<^verbatim>\<open>RemoteLease\<close> types and their methods
  are called by peer.go and read.go but their file is not among the sources. The
  definitions follow section 4.1 of the specification: a lease is
  \<^verbatim>\<open>{bound: timestamp | suspect | expired, max_lease}\<close>; \<^verbatim>\<open>renew(now)\<close> sets the bound to
  \<^verbatim>\<open>now + max_lease\<close> unless the lease is Suspect with a later bound; \<^verbatim>\<open>suspect(now)\<close>
  marks it Suspect with bound \<^verbatim>\<open>now + max_lease\<close>; \<^verbatim>\<open>expire()\<close> forces Expired and
  invalidates the remote lease; \<^verbatim>\<open>inspect(t)\<close> answers Valid, Expired or Suspect;
  \<^verbatim>\<open>maybe_new_remote_lease(term)\<close> returns or creates the shared
  \<^verbatim>\<open>RemoteLease {term, bound}\<close>, whose bound the owner moves forward only.

  A RemoteLease is shared between the lease and the leader checker, so the remote leases
  derived from a lease live in a store (\<open>remotes\<close>, addressed by position) and both
  sides hold an address.
\<close>

datatype LeaseState = LeaseStateSuspect | LeaseStateValid | LeaseStateExpired

datatype LeaseBound = Bound_Valid Time | Bound_Suspect Time | Bound_Expired

record RemoteLease =
  RL_term :: u64
  RL_bound :: Time

record Lease =
  bound :: LeaseBound
  max_lease :: Duration
  remotes :: "RemoteLease list"
  remote :: "nat option"


text \<open>\<^verbatim>\<open>Inspect(nil)\<close> inspects at the current time; the caller passes that time.\<close>

definition Lease_Inspect :: "Time \<Rightarrow> Lease \<Rightarrow> LeaseState" where
  "Lease_Inspect ts l =
     (case bound l of
        Bound_Suspect b \<Rightarrow> LeaseStateSuspect
      | Bound_Valid b \<Rightarrow> (if ts < b then LeaseStateValid else LeaseStateExpired)
      | Bound_Expired \<Rightarrow> LeaseStateExpired)"

definition RemoteLease_Inspect :: "Time \<Rightarrow> RemoteLease \<Rightarrow> LeaseState" where
  "RemoteLease_Inspect ts r = (if ts < RL_bound r then LeaseStateValid else LeaseStateExpired)"



definition Lease_Suspect :: "Time \<Rightarrow> Lease \<Rightarrow> Lease" where
  "Lease_Suspect sendTs l = l\<lparr>bound := Bound_Suspect (sendTs + max_lease l)\<rparr>"

definition Lease_Renew :: "Time \<Rightarrow> Lease \<Rightarrow> Lease" where
  "Lease_Renew sendTs l =
     (let b = sendTs + max_lease l;
          l' = (case bound l of
                  Bound_Suspect s \<Rightarrow> (if b < s then l else l\<lparr>bound := Bound_Valid b\<rparr>)
                | Bound_Valid v \<Rightarrow> l\<lparr>bound := Bound_Valid b\<rparr>
                | Bound_Expired \<Rightarrow> l\<lparr>bound := Bound_Valid b\<rparr>)
      in case (bound l', remote l') of
           (Bound_Valid v, Some a) \<Rightarrow>
             l'\<lparr>remotes := (remotes l')[a := (remotes l' ! a)\<lparr>RL_bound := max (RL_bound (remotes l' ! a)) v\<rparr>]\<rparr>
         | _ \<Rightarrow> l')"

definition Lease_MaybeNewRemoteLease :: "u64 \<Rightarrow> Lease \<Rightarrow> nat option \<times> Lease" where
  "Lease_MaybeNewRemoteLease term l =
     (case remote l of
        Some a \<Rightarrow> (Some a, l)
      | None \<Rightarrow>
          (let r = \<lparr>RL_term = term,
                    RL_bound = (case bound l of Bound_Valid v \<Rightarrow> v | _ \<Rightarrow> 0)\<rparr>;
               a = length (remotes l)
           in (Some a, l\<lparr>remotes := remotes l @ [r], remote := Some a\<rparr>)))"

section \<open>The leader checker (read.go)\<close>

text \<open>
  \<open>lc_leaderLease\<close> is the pointer to a RemoteLease: an address into the store of remote
  leases, \<open>None\<close> for nil. \<open>lc_region\<close> is the region the pointer leads to (a region is
  replaced, never changed in place).
\<close>

record leaderChecker =
  lc_peerID :: u64
  lc_invalid :: bool
  lc_term :: u64
  lc_appliedIndexTerm :: u64
  lc_leaderLease :: "nat option"
  lc_region :: Region

text \<open>
  Modelled from the spec: \<^verbatim>\<open>ErrToPbError\<close> is not among the sources; the protobuf error
  keeps the kind and payload of the Go error (section 7), so it is the same value here.
\<close>

definition ErrToPbError :: "error \<Rightarrow> error" where
  "ErrToPbError err = err"

text \<open>
  \<^verbatim>\<open>isExpired\<close> returns \<^verbatim>\<open>(bool, error)\<close>: \<open>Inr (Inl err)\<close> is the error return,
  \<open>Inr (Inr b)\<close> the boolean. \<^verbatim>\<open>ctx.Peer.Id\<close> on a nil peer and \<^verbatim>\<open>lease.Inspect\<close> on
  a nil lease are nil dereferences, which panic. \<open>mem\<close> is the store of remote leases.
\<close>

definition isExpired ::
  "leaderChecker \<Rightarrow> RemoteLease list \<Rightarrow> Context \<Rightarrow> Time \<Rightarrow> panic + (error + bool)" where
  "isExpired c mem ctx snapTime =
     (if lc_invalid c then Inr (Inl (ErrRegionNotFound (Ctx_RegionId ctx)))
      else
        let peerID = lc_peerID c;
            term = lc_term c;
            region = lc_region c;
            lease = lc_leaderLease c;
            appliedIndexTerm = lc_appliedIndexTerm c
        in (case Ctx_Peer ctx of
              None \<Rightarrow> Inl (Panic ''nil pointer dereference'')
            | Some pr \<Rightarrow>
                if Peer_Id pr \<noteq> peerID then Inr (Inl (Errorf ''mismatch peer id''))
                else if \<not> (Ctx_Term ctx = 0 \<or> term \<le> Ctx_Term ctx + 1) then Inr (Inl ErrStaleCommand)
                else (case Ctx_RegionEpoch ctx of
                        None \<Rightarrow> Inr (Inl (Errorf ''missing epoch''))
                      | Some e \<Rightarrow>
                          if Version e \<noteq> Version (Region_RegionEpoch region) then Inr (Inl ErrEpochNotMatch)
                          else if appliedIndexTerm \<noteq> term then Inr (Inr True)
                          else (case lease of
                                  None \<Rightarrow> Inl (Panic ''nil pointer dereference'')
                                | Some a \<Rightarrow>
                                    if a < length mem
                                    then Inr (Inr (RemoteLease_Inspect snapTime (mem ! a) = LeaseStateExpired))
                                    else Inl (Panic ''nil pointer dereference'')))))"

text \<open>
  The message \<^verbatim>\<open>IsLeader\<close> hands to the router. Its callback is the way the answer
  comes back; here the router is a function from the message to either the error of
  \<^verbatim>\<open>sendRaftCommand\<close> or the response the callback is completed with, and \<^verbatim>\<open>cb.wg.Wait()\<close>
  is reading that response.
\<close>

record MsgRaftCmd =
  SendTime :: Time
  Msg_Request :: RaftCmdRequest

definition snapCmd :: "Context \<Rightarrow> RaftCmdRequest" where
  "snapCmd ctx =
     \<lparr>Header = Some \<lparr>Hdr_RegionId = Ctx_RegionId ctx, Hdr_Peer = Ctx_Peer ctx,
                      Hdr_ReadQuorum = False, Hdr_RegionEpoch = Ctx_RegionEpoch ctx,
                      Hdr_Term = Ctx_Term ctx, Hdr_SyncLog = Ctx_SyncLog ctx\<rparr>,
      Requests = [\<lparr>CmdType = CmdType_Snap\<rparr>],
      AdminRequest = None\<rparr>"

text \<open>
  \<open>clock n\<close> is what the \<open>n\<close>-th call of \<^verbatim>\<open>time.Now()\<close> within \<^verbatim>\<open>IsLeader\<close> reads. The
  result pairs the returned error (\<open>None\<close> for nil) with the messages sent to the router.
\<close>

definition IsLeader ::
  "leaderChecker \<Rightarrow> RemoteLease list \<Rightarrow> (nat \<Rightarrow> Time) \<Rightarrow> (MsgRaftCmd \<Rightarrow> error + RaftCmdResponse)
     \<Rightarrow> Context \<Rightarrow> panic + (error option \<times> MsgRaftCmd list)" where
  "IsLeader c mem clock sendRaftCommand ctx =
     (let snapTime = clock 0 in
      case isExpired c mem ctx snapTime of
        Inl pn \<Rightarrow> Inl pn
      | Inr (Inl err) \<Rightarrow> Inr (Some (ErrToPbError err), [])
      | Inr (Inr False) \<Rightarrow> Inr (None, [])
      | Inr (Inr True) \<Rightarrow>
          (let msg = \<lparr>SendTime = clock 1, Msg_Request = snapCmd ctx\<rparr> in
           case sendRaftCommand msg of
             Inl err \<Rightarrow> Inr (Some (ErrToPbError err), [msg])
           | Inr resp \<Rightarrow> Inr (Resp_Error (Resp_Header resp), [msg])))"

section \<open>The consensus library, as the peer sees it\<close>

text \<open>
  The raft library (\<^verbatim>\<open>raft.RawNode\<close>) is outside the repository. The peer reads a few
  values of it and calls a few of its methods. The node is a record of the values the
  peer reads, with the list of calls the peer has made; what a call does to the node is
  a parameter of the model (\<open>raft_step\<close> of the environment below), so every theorem
  holds for every behaviour of the library.
\<close>

datatype StateType = StateFollower | StateCandidate | StateLeader | StatePreCandidate

datatype ProgressStateType = ProgressStateProbe | ProgressStateReplicate | ProgressStateSnapshot

record Progress =
  Match :: u64
  Next :: u64
  Pr_State :: ProgressStateType
  IsLearner :: bool

text \<open>The zero value \<^verbatim>\<open>raft.Progress{}\<close>.\<close>

definition Progress_zero :: Progress where
  "Progress_zero = \<lparr>Match = 0, Next = 0, Pr_State = ProgressStateProbe, IsLearner = False\<rparr>"

datatype EntryType = EntryType_EntryNormal | EntryType_EntryConfChange

record Entry =
  Entry_EntryType :: EntryType
  Entry_Term :: u64
  Entry_Index :: u64
  Entry_Data :: "byte list"
  Entry_Context :: "byte list"

record SoftState =
  SS_Lead :: u64
  SS_RaftState :: StateType

record ReadState =
  RS_Index :: u64
  RequestCtx :: "byte list"

datatype MessageType =
    MessageType_MsgHup | MessageType_MsgBeat | MessageType_MsgPropose | MessageType_MsgAppend
  | MessageType_MsgAppendResponse | MessageType_MsgRequestVote | MessageType_MsgRequestVoteResponse
  | MessageType_MsgSnapshot | MessageType_MsgHeartbeat | MessageType_MsgHeartbeatResponse
  | MessageType_MsgUnreachable | MessageType_MsgSnapStatus | MessageType_MsgCheckQuorum
  | MessageType_MsgTransferLeader | MessageType_MsgTimeoutNow | MessageType_MsgReadIndex
  | MessageType_MsgReadIndexResp | MessageType_MsgRequestPreVote | MessageType_MsgRequestPreVoteResponse

record Message =
  MsgType :: MessageType
  Msg_To :: u64
  Msg_From :: u64
  Msg_Term :: u64
  Msg_Commit :: u64

record Ready =
  SoftState :: "SoftState option"
  CommittedEntries :: "Entry list"
  ReadStates :: "ReadState list"
  Messages :: "Message list"

datatype RaftCall =
    Call_Propose "byte list" "byte list"
  | Call_ReadIndex "byte list"
  | Call_SkipBcastCommit bool
  | Call_Advance Ready
  | Call_AdvanceApply u64

text \<open>
  \<open>Status_Progress\<close> is the map \<^verbatim>\<open>Status().Progress\<close> (\<^verbatim>\<open>Status()\<close> hands out a copy),
  an association list with one pair per key.
\<close>

record RawNode =
  Raft_Term :: u64
  Raft_State :: StateType
  Raft_Lead :: u64
  Raft_IsLearner :: bool
  RaftLog_LastIndex :: u64
  Raft_PendingReadCount :: int
  Raft_ReadyReadCount :: int
  Raft_InLease :: bool
  Raft_PendingConfIndex :: u64
  Status_Progress :: "(u64 \<times> Progress) list"
  HasSnap :: bool
  raft_calls :: "RaftCall list"

section \<open>The peer's data (peer.go)\<close>

text \<open>A callback is known by its identity; \<^verbatim>\<open>NewCallback()\<close> makes a fresh one.\<close>

datatype Callback = Callback nat | NewCallback nat

record ReqCbPair =
  Req :: RaftCmdRequest
  Cb :: Callback

record ReadIndexRequest =
  RIR_id :: u64
  cmds :: "ReqCbPair list"
  renewLeaseTime :: "Time option"

record ReadIndexQueue =
  idAllocator :: u64
  reads :: "ReadIndexRequest list"
  readyCnt :: int

record ProposalMeta =
  PM_Index :: u64
  PM_Term :: u64
  PM_RenewLeaseTime :: "Time option"

record proposal =
  isConfChange :: bool
  prop_index :: u64
  prop_term :: u64
  prop_cb :: Callback

record MergeState =
  MS_MinIndex :: u64
  MS_Commit :: u64

record applyState =
  appliedIndex :: u64
  truncatedIndex :: u64


text \<open>
  \<^verbatim>\<open>PeerStorage\<close> is outside the sources: the record holds what the peer reads of it
  (\<^verbatim>\<open>Region()\<close>, \<^verbatim>\<open>AppliedIndex()\<close> and \<^verbatim>\<open>truncatedIndex()\<close> from the apply state,
  \<^verbatim>\<open>appliedIndexTerm\<close>, \<^verbatim>\<open>isInitialized()\<close>, \<^verbatim>\<open>IsApplyingSnapshot()\<close>).
\<close>

record PeerStorage =
  ps_region :: Region
  ps_applyState :: applyState
  appliedIndexTerm :: u64
  ps_isInitialized :: bool
  ps_IsApplyingSnapshot :: bool

record PeerStat =
  WrittenBytes :: u64
  WrittenKeys :: u64

record Peer =
  Meta :: metapb_Peer
  regionID :: u64
  RaftGroup :: RawNode
  peerStorage :: PeerStorage
  proposals :: "ProposalMeta list"
  applyProposals :: "proposal list"
  pendingReads :: ReadIndexQueue
  peerCache :: "u64 \<rightharpoonup> metapb_Peer"
  SizeDiffHint :: u64
  peer_deleteKeysHint :: u64
  LastApplyingIdx :: u64
  lastUrgentProposalIdx :: u64
  lastCommittedSplitIdx :: u64
  RaftLogSizeHint :: u64
  PendingRemove :: bool
  lastCommittedPrepareMergeIdx :: u64
  PendingMergeState :: "MergeState option"
  leaderLease :: Lease
  leaderChecker :: leaderChecker
  PeerStat :: PeerStat

record Config =
  RaftStoreMaxLeaderLease :: Duration
  RaftEntryMaxSize :: u64
  MergeMaxLogGap :: u64
  AllowRemoveLeader :: bool

section \<open>The world around the peer\<close>

text \<open>
  What a method does besides changing the peer is recorded in the world: the readings of
  the clock taken so far, the responses handed to callbacks (\<^verbatim>\<open>cb.Done(resp)\<close>), the
  messages appended for the apply worker, the messages given to the transport and the
  storage operations of \<^verbatim>\<open>Destroy\<close>, each in the order of the calls.
\<close>

record RaftMessage =
  RM_RegionId :: u64
  RM_RegionEpoch :: RegionEpoch
  RM_FromPeer :: metapb_Peer
  RM_ToPeer :: metapb_Peer
  RM_StartKey :: "byte list"
  RM_EndKey :: "byte list"
  RM_Message :: Message

text \<open>The Go struct \<^verbatim>\<open>apply\<close>.\<close>

record apply_task =
  apply_regionID :: u64
  apply_term :: u64
  apply_entries :: "Entry list"

datatype PeerState = PeerState_Normal | PeerState_Applying | PeerState_Tombstone | PeerState_Merging

datatype StorageOp =
    Op_clearMeta
  | Op_WritePeerState Region PeerState "MergeState option"
  | Op_WriteToKV
  | Op_WriteToRaft
  | Op_ClearData

record World =
  peer :: Peer
  ticks :: nat
  callbacks :: nat
  cbDone :: "(Callback \<times> RaftCmdResponse) list"
  applyMsgs :: "apply_task list"
  sent :: "RaftMessage list"
  storageOps :: "StorageOp list"

text \<open>
  The environment holds what the outside answers: the clock (\<open>time_Now n\<close> is the \<open>n\<close>-th
  reading of \<^verbatim>\<open>time.Now()\<close>), the raft library (\<open>raft_step\<close> gives the error a call
  returns, if any, and the node after the call; \<open>raft_Entries\<close> is \<^verbatim>\<open>RaftLog.Entries\<close>),
  the transport, the protobuf encoding, the epoch check of the read executor, the
  classification of initial messages, the floating point comparison of
  \<^verbatim>\<open>preProposePrepareMerge\<close> and the storage engine.
\<close>

record RaftLog =
  GetRaftCmdRequest :: "RaftCmdRequest option"

record Env =
  time_Now :: "nat \<Rightarrow> Time"
  raft_step :: "RaftCall \<Rightarrow> RawNode \<Rightarrow> error option \<times> RawNode"
  raft_Entries :: "RawNode \<Rightarrow> u64 \<Rightarrow> u64 \<Rightarrow> error + Entry list"
  trans_Send :: "RaftMessage list \<Rightarrow> RaftMessage \<Rightarrow> error option"
  Marshal :: "RaftLog \<Rightarrow> byte list"
  Unmarshal :: "byte list \<Rightarrow> RaftCmdRequest option"
  CheckRegionEpoch :: "RaftCmdRequest \<Rightarrow> Region \<Rightarrow> bool \<Rightarrow> error option"
  isInitialMsg :: "Message \<Rightarrow> bool"
  over_ninety_percent :: "int \<Rightarrow> u64 \<Rightarrow> bool"
  clearMeta :: "PeerStorage \<Rightarrow> error option"
  WriteToKV :: "StorageOp list \<Rightarrow> error option"
  WriteToRaft :: "StorageOp list \<Rightarrow> error option"
  ClearData :: "PeerStorage \<Rightarrow> error option"

section \<open>Responses and queues (peer.go)\<close>

text \<open>
  Modelled from the spec: \<^verbatim>\<open>ErrResp\<close>, \<^verbatim>\<open>ErrRespStaleCommand\<close>, \<^verbatim>\<open>BindRespError\<close> and
  \<^verbatim>\<open>BindRespTerm\<close> are helpers outside the sources. Following section 7, an error
  response carries the error in its header, a stale-command response carries
  \<open>ErrStaleCommand\<close> and the current term, and binding sets the header's error or term.
\<close>

definition ErrResp :: "error \<Rightarrow> RaftCmdResponse" where
  "ErrResp err =
     \<lparr>Resp_Header = \<lparr>Resp_Error = Some err, CurrentTerm = 0\<rparr>, Responses = [], AdminResponse = None\<rparr>"

definition ErrRespStaleCommand :: "u64 \<Rightarrow> RaftCmdResponse" where
  "ErrRespStaleCommand t =
     \<lparr>Resp_Header = \<lparr>Resp_Error = Some ErrStaleCommand, CurrentTerm = t\<rparr>, Responses = [],
      AdminResponse = None\<rparr>"

definition BindRespError :: "RaftCmdResponse \<Rightarrow> error \<Rightarrow> RaftCmdResponse" where
  "BindRespError resp err = resp\<lparr>Resp_Header := (Resp_Header resp)\<lparr>Resp_Error := Some err\<rparr>\<rparr>"

definition BindRespTerm :: "RaftCmdResponse \<Rightarrow> u64 \<Rightarrow> RaftCmdResponse" where
  "BindRespTerm resp t = resp\<lparr>Resp_Header := (Resp_Header resp)\<lparr>CurrentTerm := t\<rparr>\<rparr>"

text \<open>\<^verbatim>\<open>cb.Done(resp)\<close>: the response is recorded with the callback.\<close>

definition Done :: "Callback \<Rightarrow> RaftCmdResponse \<Rightarrow> World \<Rightarrow> World" where
  "Done cb resp w = w\<lparr>cbDone := cbDone w @ [(cb, resp)]\<rparr>"

definition NotifyStaleReq :: "u64 \<Rightarrow> Callback \<Rightarrow> World \<Rightarrow> World" where
  "NotifyStaleReq t cb w = Done cb (ErrRespStaleCommand t) w"

definition NotifyReqRegionRemoved :: "u64 \<Rightarrow> Callback \<Rightarrow> World \<Rightarrow> World" where
  "NotifyReqRegionRemoved regionID' cb w =
     (let regionNotFound = ErrRegionNotFound regionID';
          resp = ErrResp regionNotFound
      in Done cb resp w)"

text \<open>\<^verbatim>\<open>time.Now()\<close>: the next reading of the clock.\<close>

definition time_now :: "Env \<Rightarrow> World \<Rightarrow> Time \<times> World" where
  "time_now env w = (time_Now env (ticks w), w\<lparr>ticks := Suc (ticks w)\<rparr>)"

text \<open>\<^verbatim>\<open>binary.BigEndian.PutUint64\<close> into a buffer of 8 bytes.\<close>

definition BigEndian_PutUint64 :: "u64 \<Rightarrow> byte list" where
  "BigEndian_PutUint64 v =
     [ucast (drop_bit 56 v), ucast (drop_bit 48 v), ucast (drop_bit 40 v), ucast (drop_bit 32 v),
      ucast (drop_bit 24 v), ucast (drop_bit 16 v), ucast (drop_bit 8 v), ucast v]"

definition binaryID :: "ReadIndexRequest \<Rightarrow> byte list" where
  "binaryID r = BigEndian_PutUint64 (RIR_id r)"

definition ReadIndexQueue_PopFront :: "ReadIndexQueue \<Rightarrow> ReadIndexRequest option \<times> ReadIndexQueue" where
  "ReadIndexQueue_PopFront q =
     (if length (reads q) > 0
      then (let req = reads q ! 0 in (Some req, q\<lparr>reads := drop 1 (reads q)\<rparr>))
      else (None, q))"

definition NextID :: "ReadIndexQueue \<Rightarrow> u64 \<times> ReadIndexQueue" where
  "NextID q = (let q' = q\<lparr>idAllocator := idAllocator q + 1\<rparr> in (idAllocator q', q'))"

text \<open>
  \<^verbatim>\<open>ClearUncommitted\<close>. The slice expression \<^verbatim>\<open>q.reads[q.readyCnt:]\<close> panics unless
  \<open>0 \<le> readyCnt \<le> len(reads)\<close>. The result is the queue and the callbacks notified, in
  order, each with the stale-command response.
\<close>

definition ClearUncommitted ::
  "u64 \<Rightarrow> ReadIndexQueue \<Rightarrow> panic + (ReadIndexQueue \<times> (Callback \<times> RaftCmdResponse) list)" where
  "ClearUncommitted t q =
     (if readyCnt q < 0 \<or> int (length (reads q)) < readyCnt q
      then Inl (Panic ''slice bounds out of range'')
      else
        let uncommitted = drop (nat (readyCnt q)) (reads q);
            q' = q\<lparr>reads := take (nat (readyCnt q)) (reads q)\<rparr>
        in Inr (q', concat (map (\<lambda>read. map (\<lambda>reqCbPair. (Cb reqCbPair, ErrRespStaleCommand t)) (cmds read))
                               uncommitted)))"

definition ProposalQueue_PopFront :: "u64 \<Rightarrow> ProposalMeta list \<Rightarrow> ProposalMeta option \<times> ProposalMeta list" where
  "ProposalQueue_PopFront t queue =
     (if length queue = 0 \<or> PM_Term (queue ! 0) > t then (None, queue)
      else (let meta = queue ! 0 in (Some meta, drop 1 queue)))"

definition Push :: "ProposalMeta \<Rightarrow> ProposalMeta list \<Rightarrow> ProposalMeta list" where
  "Push meta queue = queue @ [meta]"

definition Clear :: "ProposalMeta list \<Rightarrow> ProposalMeta list" where
  "Clear queue = []"

section \<open>Reading the peer (peer.go)\<close>

definition Peer_Term :: "Peer \<Rightarrow> u64" where
  "Peer_Term p = Raft_Term (RaftGroup p)"

definition Peer_IsLeader :: "Peer \<Rightarrow> bool" where
  "Peer_IsLeader p = (Raft_State (RaftGroup p) = StateLeader)"

definition PeerID :: "Peer \<Rightarrow> u64" where
  "PeerID p = Peer_Id (Meta p)"

definition Peer_Region :: "Peer \<Rightarrow> Region" where
  "Peer_Region p = ps_region (peerStorage p)"

definition AppliedIndex :: "PeerStorage \<Rightarrow> u64" where
  "AppliedIndex ps = appliedIndex (ps_applyState ps)"

definition PeerStorage_truncatedIndex :: "PeerStorage \<Rightarrow> u64" where
  "PeerStorage_truncatedIndex ps = truncatedIndex (ps_applyState ps)"

definition IsApplyingSnapshot :: "Peer \<Rightarrow> bool" where
  "IsApplyingSnapshot p = ps_IsApplyingSnapshot (peerStorage p)"



definition isSplitting :: "Peer \<Rightarrow> bool" where
  "isSplitting p = (lastCommittedSplitIdx p > AppliedIndex (peerStorage p))"

definition isMerging :: "Peer \<Rightarrow> bool" where
  "isMerging p =
     (lastCommittedPrepareMergeIdx p > AppliedIndex (peerStorage p) \<or> PendingMergeState p \<noteq> None)"

definition readyToHandleRead :: "Peer \<Rightarrow> bool" where
  "readyToHandleRead p =
     (appliedIndexTerm (peerStorage p) = Peer_Term p \<and> \<not> isSplitting p \<and> \<not> isMerging p)"

definition nextProposalIndex :: "Peer \<Rightarrow> u64" where
  "nextProposalIndex p = RaftLog_LastIndex (RaftGroup p) + 1"

text \<open>A call into the raft library: the call is recorded and the library answers.\<close>

definition raft_call :: "Env \<Rightarrow> RaftCall \<Rightarrow> Peer \<Rightarrow> error option \<times> Peer" where
  "raft_call env c p =
     (let (err, rn) = raft_step env c (RaftGroup p)
      in (err, p\<lparr>RaftGroup := rn\<lparr>raft_calls := raft_calls (RaftGroup p) @ [c]\<rparr>\<rparr>))"

section \<open>Request inspection (peer.go)\<close>



text \<open>The nil-safe getters of the generated protobuf code.\<close>

definition GetChangePeerCmd :: "RaftCmdRequest option \<Rightarrow> ChangePeerRequest option" where
  "GetChangePeerCmd msg =
     (case msg of None \<Rightarrow> None
      | Some m \<Rightarrow> (case AdminRequest m of None \<Rightarrow> None | Some a \<Rightarrow> ChangePeer a))"








section \<open>Conf change safety (peer.go)\<close>

text \<open>Go's \<^verbatim>\<open>/\<close> on \<^verbatim>\<open>int\<close> truncates towards zero: \<open>sdiv\<close>.\<close>

definition Quorum :: "int \<Rightarrow> int" where
  "Quorum n = n sdiv 2 + 1"

text \<open>
  \<^verbatim>\<open>countHealthyNode\<close>: the loop over the progress map with its counter \<^verbatim>\<open>healthy\<close>. The
  order in which Go ranges over a map is not fixed; the list gives one order.
\<close>

fun countHealthyNode_loop :: "Peer \<Rightarrow> (u64 \<times> Progress) list \<Rightarrow> int \<Rightarrow> int" where
  "countHealthyNode_loop p [] healthy = healthy"
| "countHealthyNode_loop p ((k, pr) # rest) healthy =
     countHealthyNode_loop p rest
       (if Match pr \<ge> PeerStorage_truncatedIndex (peerStorage p) then healthy + 1 else healthy)"

definition countHealthyNode :: "Peer \<Rightarrow> (u64 \<times> Progress) list \<Rightarrow> int" where
  "countHealthyNode p progress = countHealthyNode_loop p progress 0"

definition ChangePeerRequest_GetChangeType :: "ChangePeerRequest option \<Rightarrow> ConfChangeType" where
  "ChangePeerRequest_GetChangeType cp =
     (case cp of None \<Rightarrow> ConfChangeType_AddNode | Some c \<Rightarrow> ChangeType c)"

definition ChangePeerRequest_GetPeer :: "ChangePeerRequest option \<Rightarrow> metapb_Peer option" where
  "ChangePeerRequest_GetPeer cp = (case cp of None \<Rightarrow> None | Some c \<Rightarrow> CP_Peer c)"

text \<open>The last step of \<^verbatim>\<open>checkConfChange\<close>, on the progress map after the change.\<close>

definition healthy_quorum_check :: "Peer \<Rightarrow> (u64 \<times> Progress) list \<Rightarrow> error option" where
  "healthy_quorum_check p progress =
     (let healthy = countHealthyNode p progress;
          quorumAfterChange = Quorum (int (length progress))
      in if healthy \<ge> quorumAfterChange then None
         else Some (Errorf ''unsafe to perform conf change''))"

text \<open>
  \<^verbatim>\<open>checkConfChange\<close>. The progress map is an association list (\<open>map_of\<close> reads a key,
  \<open>AList.update\<close> stores one, \<open>AList.delete\<close> removes one, \<open>length\<close> is \<^verbatim>\<open>len\<close>). The
  request's peer is a pointer: with a nil peer the first read of \<^verbatim>\<open>peer.Role\<close> or
  \<^verbatim>\<open>peer.Id\<close> panics, which for a RemoveNode request is reached unless removing the
  leader is allowed and the group has one node.
\<close>

definition checkConfChange :: "Config \<Rightarrow> RaftCmdRequest \<Rightarrow> Peer \<Rightarrow> panic + error option" where
  "checkConfChange cfg cmd p =
     (let changePeer = GetChangePeerCmd (Some cmd);
          changeType = ChangePeerRequest_GetChangeType changePeer;
          status_Progress = Status_Progress (RaftGroup p);
          total = length status_Progress
      in case ChangePeerRequest_GetPeer changePeer of
           None \<Rightarrow>
             if changeType = ConfChangeType_RemoveNode \<and> AllowRemoveLeader cfg \<and> total = 1
             then Inr None
             else Inl (Panic ''nil pointer dereference'')
         | Some pr \<Rightarrow>
             if (changeType = ConfChangeType_AddNode \<and> Peer_Role pr = PeerRole_Learner)
                \<or> (changeType = ConfChangeType_AddLearnerNode \<and> \<not> (Peer_Role pr = PeerRole_Learner))
             then Inr (Some (Errorf ''invalid conf change request''))
             else if changeType = ConfChangeType_RemoveNode \<and> \<not> AllowRemoveLeader cfg
                     \<and> Peer_Id pr = PeerID p
             then Inr (Some (Errorf ''ignore remove leader''))
             else if total = 1 then Inr None
             else (case changeType of
                     ConfChangeType_AddNode \<Rightarrow>
                       (case map_of status_Progress (Peer_Id pr) of
                          Some prg \<Rightarrow>
                            if IsLearner prg
                            then Inr (healthy_quorum_check p
                                   (AList.update (Peer_Id pr) (prg\<lparr>IsLearner := False\<rparr>) status_Progress))
                            else Inr (healthy_quorum_check p
                                   (AList.update (Peer_Id pr) Progress_zero status_Progress))
                        | None \<Rightarrow>
                            Inr (healthy_quorum_check p
                                   (AList.update (Peer_Id pr) Progress_zero status_Progress)))
                   | ConfChangeType_RemoveNode \<Rightarrow>
                       if Peer_Role pr = PeerRole_Learner then Inr None
                       else (case map_of status_Progress (Peer_Id pr) of
                               Some prg \<Rightarrow>
                                 Inr (healthy_quorum_check p (AList.delete (Peer_Id pr) status_Progress))
                             | None \<Rightarrow> Inr None)
                   | ConfChangeType_AddLearnerNode \<Rightarrow> Inr None))"
section \<open>Example values\<close>

text \<open>Concrete values at which the theorems below are instantiated.\<close>

definition ex_region :: Region where
  "ex_region = \<lparr>Region_Id = 1, StartKey = [], EndKey = [],
                 Region_RegionEpoch = \<lparr>ConfVer = 1, Version = 2\<rparr>, Peers = []\<rparr>"

definition ex_checker :: leaderChecker where
  "ex_checker = \<lparr>lc_peerID = 7, lc_invalid = False, lc_term = 5, lc_appliedIndexTerm = 5,
                  lc_leaderLease = Some 0, lc_region = ex_region\<rparr>"

definition ex_ctx :: Context where
  "ex_ctx = \<lparr>Ctx_RegionId = 1, Ctx_RegionEpoch = Some \<lparr>ConfVer = 9, Version = 2\<rparr>,
              Ctx_Peer = Some \<lparr>Peer_Id = 7, Peer_StoreId = 1, Peer_Role = PeerRole_Voter\<rparr>,
              Ctx_Term = 5, Ctx_SyncLog = False\<rparr>"

definition ex_clock :: "nat \<Rightarrow> Time" where
  "ex_clock n = 10 + int n"

definition ex_router :: "MsgRaftCmd \<Rightarrow> error + RaftCmdResponse" where
  "ex_router m = Inr \<lparr>Resp_Header = \<lparr>Resp_Error = None, CurrentTerm = 5\<rparr>, Responses = [],
                      AdminResponse = None\<rparr>"

section \<open>The conf change rule in the words of the specification\<close>

text \<open>
  The specification's rule for a conf change, to compare \<^verbatim>\<open>checkConfChange\<close> with. It is
  written from the specification's sentences and uses nothing of the functions above:
  simulate the change on a copy of the progress map (AddNode promotes a learner or inserts
  a fresh progress, RemoveNode deletes, AddLearnerNode leaves the map as it is); a node is
  healthy iff its \<open>match\<close> is at least the truncated index; the quorum of \<open>total'\<close> nodes is
  \<open>total' / 2 + 1\<close>; the change is safe iff the healthy nodes after the change are at least
  the quorum of the number of nodes after the change.
\<close>

definition simulate_change :: "ConfChangeType \<Rightarrow> metapb_Peer \<Rightarrow> (u64 \<times> Progress) list \<Rightarrow> (u64 \<times> Progress) list" where
  "simulate_change ct pr progress =
     (case ct of
        ConfChangeType_AddNode \<Rightarrow>
          (case map_of progress (Peer_Id pr) of
             Some prg \<Rightarrow>
               if IsLearner prg then AList.update (Peer_Id pr) (prg\<lparr>IsLearner := False\<rparr>) progress
               else AList.update (Peer_Id pr) Progress_zero progress
           | None \<Rightarrow> AList.update (Peer_Id pr) Progress_zero progress)
      | ConfChangeType_RemoveNode \<Rightarrow> AList.delete (Peer_Id pr) progress
      | ConfChangeType_AddLearnerNode \<Rightarrow> progress)"

definition spec_healthy :: "u64 \<Rightarrow> (u64 \<times> Progress) list \<Rightarrow> nat" where
  "spec_healthy truncated_index progress =
     length (filter (\<lambda>node. truncated_index \<le> Match (snd node)) progress)"

definition spec_quorum :: "nat \<Rightarrow> nat" where
  "spec_quorum total' = total' div 2 + 1"

definition spec_conf_change_safe ::
  "u64 \<Rightarrow> ConfChangeType \<Rightarrow> metapb_Peer \<Rightarrow> (u64 \<times> Progress) list \<Rightarrow> bool" where
  "spec_conf_change_safe truncated_index ct pr progress =
     (let progress' = simulate_change ct pr progress
      in spec_quorum (length progress') \<le> spec_healthy truncated_index progress')"

section \<open>More example values\<close>

definition ex_raft :: RawNode where
  "ex_raft = \<lparr>Raft_Term = 5, Raft_State = StateLeader, Raft_Lead = 1, Raft_IsLearner = False,
               RaftLog_LastIndex = 20, Raft_PendingReadCount = 0, Raft_ReadyReadCount = 0,
               Raft_InLease = True, Raft_PendingConfIndex = 0,
               Status_Progress = [(1, \<lparr>Match = 20, Next = 21, Pr_State = ProgressStateReplicate, IsLearner = False\<rparr>)],
               HasSnap = False, raft_calls = []\<rparr>"

definition ex_storage :: PeerStorage where
  "ex_storage = \<lparr>ps_region = ex_region, ps_applyState = \<lparr>appliedIndex = 20, truncatedIndex = 10\<rparr>,
                  appliedIndexTerm = 5, ps_isInitialized = True, ps_IsApplyingSnapshot = False\<rparr>"

definition ex_lease :: Lease where
  "ex_lease = \<lparr>bound = Bound_Valid 1000, max_lease = 100, remotes = [], remote = None\<rparr>"

definition ex_peer :: Peer where
  "ex_peer = \<lparr>Meta = \<lparr>Peer_Id = 1, Peer_StoreId = 1, Peer_Role = PeerRole_Voter\<rparr>, regionID = 1,
               RaftGroup = ex_raft, peerStorage = ex_storage, proposals = [], applyProposals = [],
               pendingReads = \<lparr>idAllocator = 0, reads = [], readyCnt = 0\<rparr>,
               peerCache = Map.empty, SizeDiffHint = 0, peer_deleteKeysHint = 0,
               LastApplyingIdx = 20, lastUrgentProposalIdx = 0, lastCommittedSplitIdx = 0,
               RaftLogSizeHint = 0, PendingRemove = False, lastCommittedPrepareMergeIdx = 0,
               PendingMergeState = None, leaderLease = ex_lease,
               leaderChecker = ex_checker\<lparr>lc_peerID := 1, lc_leaderLease := None\<rparr>,
               PeerStat = \<lparr>WrittenBytes = 0, WrittenKeys = 0\<rparr>\<rparr>"

definition ex_world :: World where
  "ex_world = \<lparr>peer = ex_peer, ticks = 0, callbacks = 0, cbDone = [], applyMsgs = [], sent = [],
                storageOps = []\<rparr>"

definition ex_env :: Env where
  "ex_env = \<lparr>time_Now = (\<lambda>n. 10 + int n),
              raft_step = (\<lambda>c rn. (None, rn)),
              raft_Entries = (\<lambda>rn lo hi. Inr []),
              trans_Send = (\<lambda>sent m. None),
              Marshal = (\<lambda>rlog. []),
              Unmarshal = (\<lambda>bs. None),
              CheckRegionEpoch = (\<lambda>req region b. None),
              isInitialMsg = (\<lambda>m. False),
              over_ninety_percent = (\<lambda>n m. False),
              clearMeta = (\<lambda>ps. None),
              WriteToKV = (\<lambda>ops. None),
              WriteToRaft = (\<lambda>ops. None),
              ClearData = (\<lambda>ps. None)\<rparr>"


definition ex_add_node :: RaftCmdRequest where
  "ex_add_node =
     \<lparr>Header = None, Requests = [],
      AdminRequest = Some \<lparr>Admin_CmdType = AdminCmdType_ChangePeer,
        ChangePeer = Some \<lparr>ChangeType = ConfChangeType_AddNode,
                            CP_Peer = Some \<lparr>Peer_Id = 2, Peer_StoreId = 2, Peer_Role = PeerRole_Voter\<rparr>\<rparr>,
        TransferLeader = None, PrepareMerge = None\<rparr>\<rparr>"

definition ex_cfg :: Config where
  "ex_cfg = \<lparr>RaftStoreMaxLeaderLease = 100, RaftEntryMaxSize = 1024, MergeMaxLogGap = 10,
              AllowRemoveLeader = False\<rparr>"

text \<open>
  A group of three voters whose follower 3 lags below the truncated index 10, and the
  request to remove a follower.
\<close>

definition ex_progress3 :: "(u64 \<times> Progress) list" where
  "ex_progress3 =
     [(1, \<lparr>Match = 20, Next = 21, Pr_State = ProgressStateReplicate, IsLearner = False\<rparr>),
      (2, \<lparr>Match = 20, Next = 21, Pr_State = ProgressStateReplicate, IsLearner = False\<rparr>),
      (3, \<lparr>Match = 5, Next = 6, Pr_State = ProgressStateProbe, IsLearner = False\<rparr>)]"

definition ex_peer3 :: Peer where
  "ex_peer3 = ex_peer\<lparr>RaftGroup := ex_raft\<lparr>Status_Progress := ex_progress3\<rparr>\<rparr>"

definition ex_voter :: "u64 \<Rightarrow> metapb_Peer" where
  "ex_voter i = \<lparr>Peer_Id = i, Peer_StoreId = i, Peer_Role = PeerRole_Voter\<rparr>"

definition ex_remove_node :: "u64 \<Rightarrow> RaftCmdRequest" where
  "ex_remove_node i =
     \<lparr>Header = None, Requests = [],
      AdminRequest = Some \<lparr>Admin_CmdType = AdminCmdType_ChangePeer,
        ChangePeer = Some \<lparr>ChangeType = ConfChangeType_RemoveNode, CP_Peer = Some (ex_voter i)\<rparr>,
        TransferLeader = None, PrepareMerge = None\<rparr>\<rparr>"

section \<open>Sending messages (peer.go)\<close>







section \<open>Proposing (peer.go)\<close>

text \<open>
  The request inside a \<^verbatim>\<open>RaftLog\<close> is a pointer: \<^verbatim>\<open>preProposePrepareMerge\<close> writes
  \<^verbatim>\<open>MinIndex\<close> into it, and \<^verbatim>\<open>Marshal\<close> afterwards sees the written value, so
  \<^verbatim>\<open>PrePropose\<close> returns the log with the request as it then is. The floating point
  comparison \<^verbatim>\<open>float64(entrySize) > float64(cfg.RaftEntryMaxSize)*0.9\<close> is
  \<open>over_ninety_percent\<close> of the environment. \<^verbatim>\<open>uint64(len(data))\<close> is \<open>of_nat (length data)\<close>.
\<close>

definition GetMinProgress :: "Peer \<Rightarrow> u64" where
  "GetMinProgress p =
     (let progress = Status_Progress (RaftGroup p);
          minMatch = fold (\<lambda>(id, pr) minMatch. if Match pr < minMatch then Match pr else minMatch)
                       progress (- 1);
          hasProgress = (progress \<noteq> [])
      in if \<not> hasProgress then 0 else minMatch)"

fun gap_entries :: "Env \<Rightarrow> Entry list \<Rightarrow> int \<Rightarrow> panic + (error + int)" where
  "gap_entries env [] entrySize = Inr (Inr entrySize)"
| "gap_entries env (entry # ents) entrySize =
     (let entrySize' = entrySize + int (length (Entry_Data entry))
      in if Entry_EntryType entry = EntryType_EntryConfChange
         then Inr (Inl (Errorf ''log gap contains conf change, skip merging''))
         else if length (Entry_Data entry) = 0 then gap_entries env ents entrySize'
         else (case Unmarshal env (Entry_Data entry) of
                 None \<Rightarrow> Inl (Panic ''data is corrupted'')
               | Some cmd \<Rightarrow>
                   (case AdminRequest cmd of
                      None \<Rightarrow> gap_entries env ents entrySize'
                    | Some a \<Rightarrow>
                        (case Admin_CmdType a of
                           AdminCmdType_TransferLeader \<Rightarrow> gap_entries env ents entrySize'
                         | AdminCmdType_ComputeHash \<Rightarrow> gap_entries env ents entrySize'
                         | AdminCmdType_VerifyHash \<Rightarrow> gap_entries env ents entrySize'
                         | AdminCmdType_InvalidAdmin \<Rightarrow> gap_entries env ents entrySize'
                         | _ \<Rightarrow> Inr (Inl (Errorf ''log gap contains admin request, skip merging''))))))"

definition preProposePrepareMerge ::
  "Env \<Rightarrow> Config \<Rightarrow> RaftCmdRequest \<Rightarrow> Peer \<Rightarrow> panic + (error + RaftCmdRequest)" where
  "preProposePrepareMerge env cfg req p =
     (let lastIndex = RaftLog_LastIndex (RaftGroup p);
          minProgress = GetMinProgress p;
          minIndex = minProgress + 1
      in if minProgress = 0 \<or> lastIndex - minProgress > MergeMaxLogGap cfg
         then Inr (Inl (Errorf ''log gap is too large, skip merge''))
         else (case raft_Entries env (RaftGroup p) minIndex (- 1) of
                 Inl err \<Rightarrow> Inr (Inl err)
               | Inr ents \<Rightarrow>
                   (case gap_entries env ents 0 of
                      Inl pn \<Rightarrow> Inl pn
                    | Inr (Inl err) \<Rightarrow> Inr (Inl err)
                    | Inr (Inr entrySize) \<Rightarrow>
                        if over_ninety_percent env entrySize (RaftEntryMaxSize cfg)
                        then Inr (Inl (Errorf ''log gap size exceed entry size limit, skip merging''))
                        else Inr (Inr (req\<lparr>AdminRequest :=
                               map_option (\<lambda>a. a\<lparr>PrepareMerge :=
                                 map_option (\<lambda>m. m\<lparr>MinIndex := minIndex\<rparr>) (PrepareMerge a)\<rparr>)
                                 (AdminRequest req)\<rparr>)))))"

definition getSyncLogFromRequest :: "RaftCmdRequest \<Rightarrow> bool" where
  "getSyncLogFromRequest req =
     (case AdminRequest req of
        Some a \<Rightarrow>
          (case Admin_CmdType a of
             AdminCmdType_ChangePeer \<Rightarrow> True
           | AdminCmdType_Split \<Rightarrow> True
           | AdminCmdType_BatchSplit \<Rightarrow> True
           | AdminCmdType_PrepareMerge \<Rightarrow> True
           | AdminCmdType_CommitMerge \<Rightarrow> True
           | AdminCmdType_RollbackMerge \<Rightarrow> True
           | _ \<Rightarrow> False)
      | None \<Rightarrow> (case Header req of None \<Rightarrow> False | Some h \<Rightarrow> Hdr_SyncLog h))"

definition PrePropose ::
  "Env \<Rightarrow> Config \<Rightarrow> RaftLog \<Rightarrow> Peer \<Rightarrow> panic + (error + (ProposalContext \<times> RaftLog))" where
  "PrePropose env cfg rlog p =
     (let ctx = (0 :: ProposalContext)
      in case GetRaftCmdRequest rlog of
           None \<Rightarrow> Inr (Inr (ctx, rlog))
         | Some req \<Rightarrow>
             (let ctx1 = (if getSyncLogFromRequest req
                          then ProposalContext_insert ctx ProposalContextSyncLog else ctx)
              in case AdminRequest req of
                   None \<Rightarrow> Inr (Inr (ctx1, rlog))
                 | Some a \<Rightarrow>
                     (let ctx2 = (case Admin_CmdType a of
                                    AdminCmdType_Split \<Rightarrow> ProposalContext_insert ctx1 ProposalContextSplit
                                  | AdminCmdType_BatchSplit \<Rightarrow> ProposalContext_insert ctx1 ProposalContextSplit
                                  | _ \<Rightarrow> ctx1)
                      in if PrepareMerge a \<noteq> None
                         then (case preProposePrepareMerge env cfg req p of
                                 Inl pn \<Rightarrow> Inl pn
                               | Inr (Inl err) \<Rightarrow> Inr (Inl err)
                               | Inr (Inr req') \<Rightarrow>
                                   Inr (Inr (ProposalContext_insert ctx2 ProposalContextPrepareMerge,
                                             rlog\<lparr>GetRaftCmdRequest := Some req'\<rparr>)))
                         else Inr (Inr (ctx2, rlog)))))"

text \<open>\<^verbatim>\<open>rlog.GetRaftCmdRequest().GetAdminRequest().GetCmdType()\<close>, each getter nil-safe.\<close>

definition RaftLog_AdminCmdType :: "RaftLog \<Rightarrow> AdminCmdType" where
  "RaftLog_AdminCmdType rlog =
     (case GetRaftCmdRequest rlog of
        None \<Rightarrow> AdminCmdType_InvalidAdmin
      | Some req \<Rightarrow>
          (case AdminRequest req of None \<Rightarrow> AdminCmdType_InvalidAdmin | Some a \<Rightarrow> Admin_CmdType a))"

definition ProposeNormal :: "Env \<Rightarrow> Config \<Rightarrow> RaftLog \<Rightarrow> Peer \<Rightarrow> panic + ((error + u64) \<times> Peer)" where
  "ProposeNormal env cfg rlog p =
     (if PendingMergeState p \<noteq> None \<and> RaftLog_AdminCmdType rlog \<noteq> AdminCmdType_RollbackMerge
      then Inr (Inl (Errorf ''peer in merging mode, can't do proposal''), p)
      else
        (case PrePropose env cfg rlog p of
           Inl pn \<Rightarrow> Inl pn
         | Inr (Inl err) \<Rightarrow> Inr (Inl err, p)
         | Inr (Inr (ctx, rlog')) \<Rightarrow>
             (let data = Marshal env rlog'
              in if (of_nat (length data) :: u64) > RaftEntryMaxSize cfg
                 then Inr (Inl (ErrRaftEntryTooLarge (regionID p) (of_nat (length data))), p)
                 else
                   (let proposeIndex = nextProposalIndex p;
                        (err, p1) = raft_call env (Call_Propose (ProposalContext_ToBytes ctx) data) p
                    in case err of
                         Some e \<Rightarrow> Inr (Inl e, p1)
                       | None \<Rightarrow>
                           if proposeIndex = nextProposalIndex p1
                           then Inr (Inl (ErrNotLeader (regionID p)), p1)
                           else Inr (Inr proposeIndex, p1)))))"

definition ex_env_lead :: Env where
  "ex_env_lead = ex_env\<lparr>raft_step :=
     (\<lambda>c rn. case c of
        Call_Propose ctx data \<Rightarrow> (None, rn\<lparr>RaftLog_LastIndex := RaftLog_LastIndex rn + 1\<rparr>)
      | Call_ReadIndex ctx \<Rightarrow> (None, rn\<lparr>Raft_PendingReadCount := Raft_PendingReadCount rn + 1\<rparr>)
      | _ \<Rightarrow> (None, rn))\<rparr>"

definition ex_put :: RaftLog where
  "ex_put = \<lparr>GetRaftCmdRequest = Some \<lparr>Header = None, Requests = [\<lparr>CmdType = CmdType_Put\<rparr>], AdminRequest = None\<rparr>\<rparr>"

definition ex_prepare_merge :: RaftLog where
  "ex_prepare_merge =
     \<lparr>GetRaftCmdRequest = Some \<lparr>Header = None, Requests = [],
        AdminRequest = Some \<lparr>Admin_CmdType = AdminCmdType_PrepareMerge, ChangePeer = None,
                              TransferLeader = None, PrepareMerge = Some \<lparr>MinIndex = 0\<rparr>\<rparr>\<rparr>\<rparr>"

definition ex_peer_lag :: Peer where
  "ex_peer_lag = ex_peer\<lparr>RaftGroup := ex_raft\<lparr>Status_Progress :=
     [(1, \<lparr>Match = 20, Next = 21, Pr_State = ProgressStateReplicate, IsLearner = False\<rparr>),
      (2, \<lparr>Match = 0, Next = 1, Pr_State = ProgressStateProbe, IsLearner = False\<rparr>)]\<rparr>\<rparr>"

section \<open>Read index (peer.go)\<close>

definition preReadIndex :: "Peer \<Rightarrow> error option" where
  "preReadIndex p =
     (if isSplitting p then Some (Errorf ''can not read index due to split'')
      else if isMerging p then Some (Errorf ''can not read index due to merge'')
      else None)"

definition new_Callback :: "World \<Rightarrow> Callback \<times> World" where
  "new_Callback w = (NewCallback (callbacks w), w\<lparr>callbacks := Suc (callbacks w)\<rparr>)"

definition PostPropose :: "Env \<Rightarrow> ProposalMeta \<Rightarrow> bool \<Rightarrow> Callback \<Rightarrow> World \<Rightarrow> World" where
  "PostPropose env meta isConfChange' cb w =
     (let (t, w1) = time_now env w;
          meta' = meta\<lparr>PM_RenewLeaseTime := Some t\<rparr>;
          prop = \<lparr>isConfChange = isConfChange', prop_index = PM_Index meta', prop_term = PM_Term meta',
                  prop_cb = cb\<rparr>;
          p = peer w1
      in w1\<lparr>peer := p\<lparr>applyProposals := applyProposals p @ [prop],
                         proposals := Push meta' (proposals p)\<rparr>\<rparr>)"

text \<open>The zero value \<^verbatim>\<open>new(raft_cmdpb.RaftCmdRequest)\<close>.\<close>

definition RaftCmdRequest_zero :: RaftCmdRequest where
  "RaftCmdRequest_zero = \<lparr>Header = None, Requests = [], AdminRequest = None\<rparr>"

definition NewRequest :: "RaftCmdRequest \<Rightarrow> RaftLog" where
  "NewRequest req = \<lparr>GetRaftCmdRequest = Some req\<rparr>"

text \<open>
  \<^verbatim>\<open>readIndex\<close>. The test whether the last pending read is still within the lease reads
  \<^verbatim>\<open>read.renewLeaseTime\<close> through its pointer (a nil pointer panics).
\<close>

definition readIndex ::
  "Env \<Rightarrow> Config \<Rightarrow> RaftCmdRequest \<Rightarrow> RaftCmdResponse \<Rightarrow> Callback \<Rightarrow> World \<Rightarrow> panic + (bool \<times> World)" where
  "readIndex env cfg req errResp cb w =
     (case preReadIndex (peer w) of
        Some err \<Rightarrow> Inr (False, Done cb (BindRespError errResp err) w)
      | None \<Rightarrow>
          (let (now, w1) = time_now env w;
               renewLeaseTime' = now;
               q = pendingReads (peer w1);
               readsLen = length (reads q)
           in case (if readsLen > 0
                    then (let read = reads q ! (readsLen - 1)
                          in case renewLeaseTime read of
                               None \<Rightarrow> Inl (Panic ''nil pointer dereference'')
                             | Some t \<Rightarrow> Inr (renewLeaseTime' < t + RaftStoreMaxLeaderLease cfg))
                    else Inr False) of
                Inl pn \<Rightarrow> Inl pn
              | Inr True \<Rightarrow>
                  (let read = reads q ! (readsLen - 1);
                       read' = read\<lparr>cmds := cmds read @ [\<lparr>Req = req, Cb = cb\<rparr>]\<rparr>
                   in Inr (False, w1\<lparr>peer := (peer w1)\<lparr>pendingReads :=
                                        q\<lparr>reads := (reads q)[readsLen - 1 := read']\<rparr>\<rparr>\<rparr>))
              | Inr False \<Rightarrow>
                  (let p = peer w1;
                       lastPendingReadCount = Raft_PendingReadCount (RaftGroup p);
                       lastReadyReadCount = Raft_ReadyReadCount (RaftGroup p);
                       (id, q') = NextID (pendingReads p);
                       ctx = BigEndian_PutUint64 id;
                       (err, p2) = raft_call env (Call_ReadIndex ctx) (p\<lparr>pendingReads := q'\<rparr>);
                       pendingReadCount = Raft_PendingReadCount (RaftGroup p2);
                       readyReadCount = Raft_ReadyReadCount (RaftGroup p2)
                   in if pendingReadCount = lastPendingReadCount \<and> readyReadCount = lastReadyReadCount
                      then Inr (False, NotifyStaleReq (Peer_Term p2) cb (w1\<lparr>peer := p2\<rparr>))
                      else
                        (let cmds' = [\<lparr>Req = req, Cb = cb\<rparr>];
                             p3 = p2\<lparr>pendingReads := (pendingReads p2)\<lparr>reads := reads (pendingReads p2)
                                    @ [\<lparr>RIR_id = id, cmds = cmds', renewLeaseTime = Some renewLeaseTime'\<rparr>]\<rparr>\<rparr>
                         in if Lease_Inspect renewLeaseTime' (leaderLease p3) = LeaseStateSuspect
                            then (case ProposeNormal env cfg (NewRequest RaftCmdRequest_zero) p3 of
                                    Inl pn \<Rightarrow> Inl pn
                                  | Inr (Inl e, p4) \<Rightarrow> Inr (True, w1\<lparr>peer := p4\<rparr>)
                                  | Inr (Inr index, p4) \<Rightarrow>
                                      (let meta = \<lparr>PM_Index = index, PM_Term = Peer_Term p4,
                                                    PM_RenewLeaseTime = Some renewLeaseTime'\<rparr>;
                                           (ncb, w4) = new_Callback (w1\<lparr>peer := p4\<rparr>)
                                       in Inr (True, PostPropose env meta False ncb w4)))
                            else Inr (True, w1\<lparr>peer := p3\<rparr>)))))"

text \<open>\<^verbatim>\<open>binary.BigEndian.Uint64\<close>, the reading that goes with \<open>BigEndian_PutUint64\<close>.\<close>

definition BigEndian_Uint64 :: "byte list \<Rightarrow> u64" where
  "BigEndian_Uint64 b =
     push_bit 56 (ucast (b ! 0)) OR push_bit 48 (ucast (b ! 1)) OR push_bit 40 (ucast (b ! 2))
     OR push_bit 32 (ucast (b ! 3)) OR push_bit 24 (ucast (b ! 4)) OR push_bit 16 (ucast (b ! 5))
     OR push_bit 8 (ucast (b ! 6)) OR ucast (b ! 7)"

definition ex_snap_req :: RaftCmdRequest where
  "ex_snap_req = \<lparr>Header = None, Requests = [\<lparr>CmdType = CmdType_Snap\<rparr>], AdminRequest = None\<rparr>"

definition ex_errResp :: RaftCmdResponse where
  "ex_errResp = \<lparr>Resp_Header = \<lparr>Resp_Error = None, CurrentTerm = 0\<rparr>, Responses = [], AdminResponse = None\<rparr>"

definition ex_read1 :: ReadIndexRequest where
  "ex_read1 = \<lparr>RIR_id = 1, cmds = [\<lparr>Req = ex_snap_req, Cb = Callback 1\<rparr>], renewLeaseTime = Some 5\<rparr>"

definition ex_world_pending :: World where
  "ex_world_pending =
     ex_world\<lparr>peer := ex_peer\<lparr>pendingReads := \<lparr>idAllocator = 1, reads = [ex_read1], readyCnt = 0\<rparr>\<rparr>\<rparr>"

definition ex_world_split :: World where
  "ex_world_split =
     ex_world\<lparr>peer := ex_peer\<lparr>pendingReads := \<lparr>idAllocator = 1, reads = [ex_read1], readyCnt = 0\<rparr>,
                              lastCommittedSplitIdx := 25\<rparr>\<rparr>"

section \<open>Applying reads (peer.go)\<close>

text \<open>
  \<^verbatim>\<open>ReadExecutor.Execute\<close>: the loop over the sub-commands answers a Snap and panics on
  every other command type.
\<close>

fun execute_requests :: "Request list \<Rightarrow> panic + Response list" where
  "execute_requests [] = Inr []"
| "execute_requests (req # reqs) =
     (case CmdType req of
        CmdType_Snap \<Rightarrow>
          (case execute_requests reqs of
             Inl pn \<Rightarrow> Inl pn
           | Inr resps \<Rightarrow> Inr (\<lparr>Resp_CmdType = CmdType req\<rparr> # resps))
      | _ \<Rightarrow> Inl (Panic ''unreachable''))"

definition Execute :: "Env \<Rightarrow> bool \<Rightarrow> RaftCmdRequest \<Rightarrow> Region \<Rightarrow> panic + RaftCmdResponse" where
  "Execute env checkEpoch msg region' =
     (case (if checkEpoch then CheckRegionEpoch env msg region' True else None) of
        Some err \<Rightarrow> Inr (ErrResp err)
      | None \<Rightarrow>
          (case execute_requests (Requests msg) of
             Inl pn \<Rightarrow> Inl pn
           | Inr resps \<Rightarrow>
               Inr \<lparr>Resp_Header = \<lparr>Resp_Error = None, CurrentTerm = 0\<rparr>, Responses = resps,
                    AdminResponse = None\<rparr>))"

definition handleRead :: "Env \<Rightarrow> RaftCmdRequest \<Rightarrow> bool \<Rightarrow> Peer \<Rightarrow> panic + RaftCmdResponse" where
  "handleRead env req checkEpoch p =
     (case Execute env checkEpoch req (Peer_Region p) of
        Inl pn \<Rightarrow> Inl pn
      | Inr resp \<Rightarrow> Inr (BindRespTerm resp (Peer_Term p)))"

text \<open>The loop \<^verbatim>\<open>for _, reqCb := range read.cmds\<close> that answers each command of a read.\<close>

fun respond_cmds :: "Env \<Rightarrow> ReqCbPair list \<Rightarrow> World \<Rightarrow> panic + World" where
  "respond_cmds env [] w = Inr w"
| "respond_cmds env (reqCb # rest) w =
     (case handleRead env (Req reqCb) True (peer w) of
        Inl pn \<Rightarrow> Inl pn
      | Inr resp \<Rightarrow> respond_cmds env rest (Done (Cb reqCb) resp w))"

definition MaybeRenewLeaderLease :: "Time \<Rightarrow> Peer \<Rightarrow> Peer" where
  "MaybeRenewLeaderLease ts p =
     (if \<not> Peer_IsLeader p \<or> isSplitting p \<or> isMerging p then p
      else
        let l1 = Lease_Renew ts (leaderLease p);
            (remoteLease, l2) = Lease_MaybeNewRemoteLease (Peer_Term p) l1;
            p1 = p\<lparr>leaderLease := l2\<rparr>
        in if \<not> PendingRemove p1 \<and> remoteLease \<noteq> None
           then p1\<lparr>leaderChecker := (leaderChecker p1)\<lparr>lc_leaderLease := remoteLease\<rparr>\<rparr>
           else p1)"

function findProposeTime :: "u64 \<Rightarrow> u64 \<Rightarrow> ProposalMeta list \<Rightarrow> Time option \<times> ProposalMeta list" where
  "findProposeTime idx t queue =
     (case ProposalQueue_PopFront t queue of
        (None, queue') \<Rightarrow> (None, queue')
      | (Some meta, queue') \<Rightarrow>
          if PM_Index meta = idx \<and> PM_Term meta = t then (PM_RenewLeaseTime meta, queue')
          else findProposeTime idx t queue')"
  by pat_completeness auto
termination
  by (relation "measure (\<lambda>(idx, t, queue). length queue)")
     (auto simp: ProposalQueue_PopFront_def Let_def split: if_splits)

declare findProposeTime.simps [simp del]

text \<open>
  The two loops of \<^verbatim>\<open>ApplyReads\<close> over the read states. When the peer is ready to handle
  reads, each read state pops the head of the queue and answers it. Otherwise each read
  state looks at \<^verbatim>\<open>reads[readyCnt]\<close> (an index out of range panics) and counts it.
\<close>

fun apply_reads_ready :: "Env \<Rightarrow> ReadState list \<Rightarrow> Time option \<Rightarrow> World \<Rightarrow> panic + (Time option \<times> World)" where
  "apply_reads_ready env [] proposeTime w = Inr (proposeTime, w)"
| "apply_reads_ready env (state # states) proposeTime w =
     (let (read, q') = ReadIndexQueue_PopFront (pendingReads (peer w));
          w1 = w\<lparr>peer := (peer w)\<lparr>pendingReads := q'\<rparr>\<rparr>
      in case read of
           None \<Rightarrow> Inl (Panic ''read should exist'')
         | Some rd \<Rightarrow>
             if RequestCtx state \<noteq> binaryID rd
             then Inl (Panic ''request ctx not equal to read id'')
             else (case respond_cmds env (cmds rd) w1 of
                     Inl pn \<Rightarrow> Inl pn
                   | Inr w2 \<Rightarrow> apply_reads_ready env states (renewLeaseTime rd) w2))"

fun apply_reads_count ::
  "ReadState list \<Rightarrow> Time option \<Rightarrow> ReadIndexQueue \<Rightarrow> panic + (Time option \<times> ReadIndexQueue)" where
  "apply_reads_count [] proposeTime q = Inr (proposeTime, q)"
| "apply_reads_count (state # states) proposeTime q =
     (if readyCnt q < 0 \<or> int (length (reads q)) \<le> readyCnt q
      then Inl (Panic ''index out of range'')
      else
        let read = reads q ! nat (readyCnt q)
        in if RequestCtx state \<noteq> binaryID read
           then Inl (Panic ''request ctx not equal to read id'')
           else apply_reads_count states (renewLeaseTime read) (q\<lparr>readyCnt := readyCnt q + 1\<rparr>))"

definition ApplyReads :: "Env \<Rightarrow> Ready \<Rightarrow> World \<Rightarrow> panic + World" where
  "ApplyReads env ready w =
     (case (if readyToHandleRead (peer w)
            then apply_reads_ready env (ReadStates ready) None w
            else (case apply_reads_count (ReadStates ready) None (pendingReads (peer w)) of
                    Inl pn \<Rightarrow> Inl pn
                  | Inr (proposeTime, q) \<Rightarrow> Inr (proposeTime, w\<lparr>peer := (peer w)\<lparr>pendingReads := q\<rparr>\<rparr>))) of
        Inl pn \<Rightarrow> Inl pn
      | Inr (proposeTime, w1) \<Rightarrow>
          (case (if SoftState ready \<noteq> None
                 then (case ClearUncommitted (Peer_Term (peer w1)) (pendingReads (peer w1)) of
                         Inl pn \<Rightarrow> Inl pn
                       | Inr (q, notified) \<Rightarrow>
                           Inr (w1\<lparr>peer := (peer w1)\<lparr>pendingReads := q\<rparr>,
                                   cbDone := cbDone w1 @ notified\<rparr>))
                 else Inr w1) of
             Inl pn \<Rightarrow> Inl pn
           | Inr w2 \<Rightarrow>
               (case proposeTime of
                  None \<Rightarrow> Inr w2
                | Some pt \<Rightarrow>
                    if Lease_Inspect pt (leaderLease (peer w2)) = LeaseStateSuspect then Inr w2
                    else Inr (w2\<lparr>peer := MaybeRenewLeaderLease pt (peer w2)\<rparr>))))"











section \<open>Handling committed entries (peer.go)\<close>

text \<open>
  The loop of \<^verbatim>\<open>HandleRaftReadyApply\<close> over the committed entries. The state of the loop
  is the peer with the three flags. The context is parsed from the constant
  \<^verbatim>\<open>[]byte{0}\<close>, as the source has it (the line that parses \<^verbatim>\<open>entry.Context\<close> is commented
  out there). \<^verbatim>\<open>proposalCtx\<close> is a pointer; in this branch one of the two flags is set, so
  \<^verbatim>\<open>contains\<close> is called and a nil pointer panics.
\<close>

fun committed_entries_loop ::
  "Env \<Rightarrow> Entry list \<Rightarrow> bool \<Rightarrow> bool \<Rightarrow> bool \<Rightarrow> World \<Rightarrow> panic + World" where
  "committed_entries_loop env [] leaseToBeUpdated splitToBeUpdated mergeToBeUpdated w = Inr w"
| "committed_entries_loop env (entry # rest) leaseToBeUpdated splitToBeUpdated mergeToBeUpdated w =
     (let p1 = (peer w)\<lparr>RaftLogSizeHint :=
                 RaftLogSizeHint (peer w) + of_nat (length (Entry_Data entry))\<rparr>;
          (p2, leaseToBeUpdated') =
             (if leaseToBeUpdated
              then (let (proposeTime, queue') =
                          findProposeTime (Entry_Index entry) (Entry_Term entry) (proposals p1);
                        p1' = p1\<lparr>proposals := queue'\<rparr>
                    in case proposeTime of
                         Some ts \<Rightarrow> (MaybeRenewLeaderLease ts p1', False)
                       | None \<Rightarrow> (p1', leaseToBeUpdated))
              else (p1, leaseToBeUpdated))
      in if Entry_Term entry = Peer_Term p2 \<and> (splitToBeUpdated \<or> mergeToBeUpdated)
         then (case NewProposalContextFromBytes [0] of
                 Inl pn \<Rightarrow> Inl pn
               | Inr None \<Rightarrow> Inl (Panic ''invalid memory address or nil pointer dereference'')
               | Inr (Some proposalCtx) \<Rightarrow>
                   (let (p3, splitToBeUpdated') =
                          (if splitToBeUpdated \<and> ProposalContext_contains proposalCtx ProposalContextSplit
                           then (p2\<lparr>lastCommittedSplitIdx := Entry_Index entry\<rparr>, False)
                           else (p2, splitToBeUpdated));
                        (w3, mergeToBeUpdated') =
                          (if mergeToBeUpdated
                                \<and> ProposalContext_contains proposalCtx ProposalContextPrepareMerge
                           then (let p4 = p3\<lparr>lastCommittedPrepareMergeIdx := Entry_Index entry\<rparr>;
                                     (now, w') = time_now env (w\<lparr>peer := p4\<rparr>)
                                 in (w'\<lparr>peer := (peer w')\<lparr>leaderLease :=
                                            Lease_Suspect now (leaderLease (peer w'))\<rparr>\<rparr>, False))
                           else (w\<lparr>peer := p3\<rparr>, mergeToBeUpdated))
                    in committed_entries_loop env rest leaseToBeUpdated' splitToBeUpdated'
                         mergeToBeUpdated' w3))
         else committed_entries_loop env rest leaseToBeUpdated' splitToBeUpdated mergeToBeUpdated
                (w\<lparr>peer := p2\<rparr>))"

text \<open>
  \<^verbatim>\<open>HandleRaftReadyApply\<close>. \<^verbatim>\<open>ready\<close> is a pointer whose committed entries are taken out;
  the ready as the caller sees it afterwards is returned with the world.
  \<^verbatim>\<open>math.MaxUint64\<close> is the word \<open>- 1\<close>.
\<close>

definition HandleRaftReadyApply :: "Env \<Rightarrow> Ready \<Rightarrow> World \<Rightarrow> panic + (Ready \<times> World)" where
  "HandleRaftReadyApply env ready w =
     (case (if IsApplyingSnapshot (peer w)
            then Inr (ready, w\<lparr>peer := (peer w)\<lparr>LastApplyingIdx :=
                                 PeerStorage_truncatedIndex (peerStorage (peer w))\<rparr>\<rparr>)
            else
              (let committedEntries = CommittedEntries ready;
                   ready1 = ready\<lparr>CommittedEntries := []\<rparr>;
                   leaseToBeUpdated = Peer_IsLeader (peer w);
                   splitToBeUpdated = Peer_IsLeader (peer w);
                   mergeToBeUpdated = Peer_IsLeader (peer w);
                   w1 = (if \<not> leaseToBeUpdated
                         then w\<lparr>peer := (peer w)\<lparr>proposals := Clear (proposals (peer w))\<rparr>\<rparr>
                         else w)
               in case committed_entries_loop env committedEntries leaseToBeUpdated
                         splitToBeUpdated mergeToBeUpdated w1 of
                    Inl pn \<Rightarrow> Inl pn
                  | Inr w2 \<Rightarrow>
                      (let l = length committedEntries
                       in if l > 0
                          then (let p1 = (peer w2)\<lparr>LastApplyingIdx :=
                                             Entry_Index (committedEntries ! (l - 1))\<rparr>;
                                    p2 = (if LastApplyingIdx p1 \<ge> lastUrgentProposalIdx p1
                                          then (snd (raft_call env (Call_SkipBcastCommit True) p1))
                                                 \<lparr>lastUrgentProposalIdx := - 1\<rparr>
                                          else p1);
                                    apply = \<lparr>apply_regionID = regionID p2, apply_term = Peer_Term p2,
                                             apply_entries = committedEntries\<rparr>
                                in Inr (ready1, w2\<lparr>peer := p2, applyMsgs := applyMsgs w2 @ [apply]\<rparr>))
                          else Inr (ready1, w2)))) of
        Inl pn \<Rightarrow> Inl pn
      | Inr (ready2, w3) \<Rightarrow>
          (case ApplyReads env ready2 w3 of
             Inl pn \<Rightarrow> Inl pn
           | Inr w4 \<Rightarrow>
               (let p5 = snd (raft_call env (Call_Advance ready2) (peer w4));
                    p6 = (if IsApplyingSnapshot p5
                          then snd (raft_call env (Call_AdvanceApply (LastApplyingIdx p5)) p5)
                          else p5)
                in Inr (ready2, w4\<lparr>peer := p6\<rparr>))))"

text \<open>
  A ready of a leader in term 5: one committed entry of that term, at index 21, whose
  context is the PREPARE_MERGE flag alone, and one whose context is the SPLIT flag.
\<close>

definition ex_entry_merge :: Entry where
  "ex_entry_merge = \<lparr>Entry_EntryType = EntryType_EntryNormal, Entry_Term = 5, Entry_Index = 21,
                      Entry_Data = [], Entry_Context = ProposalContext_ToBytes ProposalContextPrepareMerge\<rparr>"

definition ex_entry_split :: Entry where
  "ex_entry_split = \<lparr>Entry_EntryType = EntryType_EntryNormal, Entry_Term = 5, Entry_Index = 21,
                      Entry_Data = [], Entry_Context = ProposalContext_ToBytes ProposalContextSplit\<rparr>"

definition ex_ready_entry :: "Entry \<Rightarrow> Ready" where
  "ex_ready_entry e = \<lparr>SoftState = None, CommittedEntries = [e], ReadStates = [], Messages = []\<rparr>"

section \<open>Destroying the peer (peer.go)\<close>

text \<open>
  The loops of \<^verbatim>\<open>Destroy\<close> over the commands of a pending read, over the pending reads and
  over the buffered apply proposals. \<^verbatim>\<open>read.cmds = nil\<close> clears a request that the next
  statement drops with the whole queue.
\<close>

fun notify_cmds_removed :: "u64 \<Rightarrow> ReqCbPair list \<Rightarrow> World \<Rightarrow> World" where
  "notify_cmds_removed regionID' [] w = w"
| "notify_cmds_removed regionID' (r # rest) w =
     notify_cmds_removed regionID' rest (NotifyReqRegionRemoved regionID' (Cb r) w)"

fun notify_reads_removed :: "u64 \<Rightarrow> ReadIndexRequest list \<Rightarrow> World \<Rightarrow> World" where
  "notify_reads_removed regionID' [] w = w"
| "notify_reads_removed regionID' (read # rest) w =
     notify_reads_removed regionID' rest (notify_cmds_removed regionID' (cmds read) w)"

fun notify_proposals_removed :: "u64 \<Rightarrow> proposal list \<Rightarrow> World \<Rightarrow> World" where
  "notify_proposals_removed regionID' [] w = w"
| "notify_proposals_removed regionID' (proposal # rest) w =
     notify_proposals_removed regionID' rest (NotifyReqRegionRemoved regionID' (prop_cb proposal) w)"

text \<open>A storage operation is recorded when it is called.\<close>

definition storage_op :: "StorageOp \<Rightarrow> World \<Rightarrow> World" where
  "storage_op op w = w\<lparr>storageOps := storageOps w @ [op]\<rparr>"

text \<open>
  \<^verbatim>\<open>Destroy\<close> returns an error or nil. The two write batches are what the storage
  operations recorded so far have put in them. An error of \<^verbatim>\<open>ClearData\<close> is logged only.
  \<^verbatim>\<open>time.Since(start)\<close> reads the clock once more.
\<close>

definition Destroy :: "Env \<Rightarrow> bool \<Rightarrow> World \<Rightarrow> error option \<times> World" where
  "Destroy env keepData w =
     (let (start, w1) = time_now env w;
          region = Peer_Region (peer w1);
          w2 = storage_op Op_clearMeta w1
      in case clearMeta env (peerStorage (peer w1)) of
           Some err \<Rightarrow> (Some err, w2)
         | None \<Rightarrow>
             (let mergeState = (if PendingMergeState (peer w2) \<noteq> None
                                then PendingMergeState (peer w2) else None);
                  w3 = storage_op (Op_WritePeerState region PeerState_Tombstone mergeState) w2;
                  w4 = storage_op Op_WriteToKV w3
              in case WriteToKV env (storageOps w3) of
                   Some err \<Rightarrow> (Some err, w4)
                 | None \<Rightarrow>
                     (let w5 = storage_op Op_WriteToRaft w4
                      in case WriteToRaft env (storageOps w4) of
                           Some err \<Rightarrow> (Some err, w5)
                         | None \<Rightarrow>
                             (let w6 = (if ps_isInitialized (peerStorage (peer w5)) \<and> \<not> keepData
                                        then storage_op Op_ClearData w5 else w5);
                                  w7 = notify_reads_removed (Region_Id region)
                                         (reads (pendingReads (peer w6))) w6;
                                  w8 = w7\<lparr>peer := (peer w7)\<lparr>pendingReads :=
                                          (pendingReads (peer w7))\<lparr>reads := []\<rparr>\<rparr>\<rparr>;
                                  w9 = notify_proposals_removed (Region_Id region)
                                         (applyProposals (peer w8)) w8;
                                  w10 = w9\<lparr>peer := (peer w9)\<lparr>applyProposals := []\<rparr>\<rparr>;
                                  (since, w11) = time_now env w10
                              in (None, w11)))))"

text \<open>The response \<^verbatim>\<open>NotifyReqRegionRemoved\<close> hands to a callback.\<close>

definition region_removed :: "u64 \<Rightarrow> Callback \<Rightarrow> Callback \<times> RaftCmdResponse" where
  "region_removed regionID' cb = (cb, ErrResp (ErrRegionNotFound regionID'))"

text \<open>A peer with one pending read and one buffered apply proposal; a store whose write fails.\<close>

definition ex_world_destroy :: World where
  "ex_world_destroy =
     ex_world\<lparr>peer := ex_peer\<lparr>pendingReads := \<lparr>idAllocator = 1, reads = [ex_read1], readyCnt = 0\<rparr>,
                 applyProposals := [\<lparr>isConfChange = False, prop_index = 21, prop_term = 5,
                                     prop_cb = Callback 2\<rparr>]\<rparr>\<rparr>"

definition ex_env_io :: Env where
  "ex_env_io = ex_env\<lparr>WriteToKV := (\<lambda>ops. Some (Errorf ''write to kv''))\<rparr>"

section \<open>A leader that has published its remote lease\<close>


section \<open>Creating the peer and the states it reaches (peer.go)\<close>





section \<open>Theorems\<close>

subsection \<open>ProposalContext encoding\<close>

text \<open>
  Claim C8. Encoding a ProposalContext gives one byte, and decoding that byte gives the
  context back, for every value of the byte. Decoding the empty context gives nil.
  Decoding a context of more than one byte panics.
\<close>

theorem C8_ProposalContext_roundtrip:
  "NewProposalContextFromBytes (ProposalContext_ToBytes c) = Inr (Some c)
   \<and> length (ProposalContext_ToBytes c) = 1
   \<and> NewProposalContextFromBytes [] = Inr None
   \<and> (1 < length ctx \<longrightarrow> NewProposalContextFromBytes ctx = Inl (Panic ''Invalid ProposalContext''))"
  by (simp add: NewProposalContextFromBytes_def ProposalContext_ToBytes_def Let_def)

theorem C8_ProposalContext_roundtrip_witness:
  "NewProposalContextFromBytes (ProposalContext_ToBytes ProposalContextPrepareMerge)
     = Inr (Some ProposalContextPrepareMerge)
   \<and> NewProposalContextFromBytes [] = Inr None
   \<and> 1 < length [1, 4 :: byte]
   \<and> NewProposalContextFromBytes [1, 4] = Inl (Panic ''Invalid ProposalContext'')"
  using C8_ProposalContext_roundtrip [of ProposalContextPrepareMerge "[1, 4]"]
  by simp

lemma stale_word:
  fixes x t :: u64
  assumes "unat x + 1 < unat t"
  shows "\<not> t \<le> x + 1"
proof -
  have "unat t < 2 ^ 64" using unsigned_less [of t, where ?'a = nat] by simp
  then have "unat x + unat (1::u64) < 2 ^ LENGTH(64)" using assms by simp
  then have "unat (x + 1) = unat x + 1" by (simp add: unat_add_lem [THEN iffD1])
  then show ?thesis using assms by (simp add: word_le_nat_alt)
qed

lemma isExpired_False_iff:
  "isExpired c mem ctx t = Inr (Inr False) \<longleftrightarrow>
     \<not> lc_invalid c
     \<and> (\<exists>pr. Ctx_Peer ctx = Some pr \<and> Peer_Id pr = lc_peerID c)
     \<and> (Ctx_Term ctx = 0 \<or> lc_term c \<le> Ctx_Term ctx + 1)
     \<and> (\<exists>e. Ctx_RegionEpoch ctx = Some e \<and> Version e = Version (Region_RegionEpoch (lc_region c)))
     \<and> lc_appliedIndexTerm c = lc_term c
     \<and> (\<exists>a. lc_leaderLease c = Some a \<and> a < length mem
              \<and> RemoteLease_Inspect t (mem ! a) \<noteq> LeaseStateExpired)"
  by (auto simp: isExpired_def Let_def split: option.splits if_splits)

lemma isExpired_True_iff:
  "isExpired c mem ctx t = Inr (Inr True) \<longleftrightarrow>
     \<not> lc_invalid c
     \<and> (\<exists>pr. Ctx_Peer ctx = Some pr \<and> Peer_Id pr = lc_peerID c)
     \<and> (Ctx_Term ctx = 0 \<or> lc_term c \<le> Ctx_Term ctx + 1)
     \<and> (\<exists>e. Ctx_RegionEpoch ctx = Some e \<and> Version e = Version (Region_RegionEpoch (lc_region c)))
     \<and> (lc_appliedIndexTerm c \<noteq> lc_term c
          \<or> (\<exists>a. lc_leaderLease c = Some a \<and> a < length mem
                   \<and> RemoteLease_Inspect t (mem ! a) = LeaseStateExpired))"
  by (auto simp: isExpired_def Let_def split: option.splits if_splits)

lemma IsLeader_sends_iff:
  "(\<exists>err msg msgs. IsLeader c mem clock router ctx = Inr (err, msg # msgs))
     \<longleftrightarrow> isExpired c mem ctx (clock 0) = Inr (Inr True)"
  by (auto simp: IsLeader_def Let_def split: sum.splits bool.splits)

lemma IsLeader_None_iff:
  "IsLeader c mem clock router ctx = Inr (None, []) \<longleftrightarrow> isExpired c mem ctx (clock 0) = Inr (Inr False)"
  by (auto simp: IsLeader_def Let_def split: sum.splits bool.splits)

subsection \<open>The leader checker\<close>

text \<open>
  Claim C4, as amended. \<^verbatim>\<open>leaderChecker.IsLeader\<close> answers RegionNotFound when the invalid
  flag is set; an error when the request's peer id differs from the checker's; StaleCommand
  when the request term is not zero and the checker's term is more than one above it; the
  error ``missing epoch'' when these checks pass and the request carries no region epoch;
  EpochNotMatch when the version of the request's epoch differs from the region's, whatever
  the ConfVer. None of these sends anything to the router. It returns nil without sending
  anything to the router exactly when all these checks pass, the applied index term equals
  the term and the remote lease inspected at the snapshot time is not Expired. It sends a
  command to the router exactly when the checks pass and the applied index term differs
  from the term or the remote lease is Expired: then it sends one Snap command and returns
  what the router or the callback's response says. A request without a peer, and a checker
  without a remote lease when the lease is consulted, are nil dereferences.
\<close>

theorem C4_IsLeader_amended:
  "(lc_invalid c \<longrightarrow>
      IsLeader c mem clock router ctx = Inr (Some (ErrRegionNotFound (Ctx_RegionId ctx)), []))
   \<and> (\<not> lc_invalid c \<and> Ctx_Peer ctx = Some pr \<and> Peer_Id pr \<noteq> lc_peerID c \<longrightarrow>
      IsLeader c mem clock router ctx = Inr (Some (Errorf ''mismatch peer id''), []))
   \<and> (\<not> lc_invalid c \<and> Ctx_Peer ctx = Some pr \<and> Peer_Id pr = lc_peerID c
        \<and> Ctx_Term ctx \<noteq> 0 \<and> unat (Ctx_Term ctx) + 1 < unat (lc_term c) \<longrightarrow>
      IsLeader c mem clock router ctx = Inr (Some ErrStaleCommand, []))
   \<and> (\<not> lc_invalid c \<and> Ctx_Peer ctx = Some pr \<and> Peer_Id pr = lc_peerID c
        \<and> (Ctx_Term ctx = 0 \<or> lc_term c \<le> Ctx_Term ctx + 1)
        \<and> Ctx_RegionEpoch ctx = None \<longrightarrow>
      IsLeader c mem clock router ctx = Inr (Some (Errorf ''missing epoch''), []))
   \<and> (\<not> lc_invalid c \<and> Ctx_Peer ctx = Some pr \<and> Peer_Id pr = lc_peerID c
        \<and> (Ctx_Term ctx = 0 \<or> lc_term c \<le> Ctx_Term ctx + 1)
        \<and> Ctx_RegionEpoch ctx = Some e \<and> Version e \<noteq> Version (Region_RegionEpoch (lc_region c)) \<longrightarrow>
      IsLeader c mem clock router ctx = Inr (Some ErrEpochNotMatch, []))
   \<and> isExpired c mem (ctx\<lparr>Ctx_RegionEpoch := Some (e\<lparr>ConfVer := v\<rparr>)\<rparr>) t
       = isExpired c mem (ctx\<lparr>Ctx_RegionEpoch := Some e\<rparr>) t
   \<and> (IsLeader c mem clock router ctx = Inr (None, []) \<longleftrightarrow>
        \<not> lc_invalid c
        \<and> (\<exists>p. Ctx_Peer ctx = Some p \<and> Peer_Id p = lc_peerID c)
        \<and> (Ctx_Term ctx = 0 \<or> lc_term c \<le> Ctx_Term ctx + 1)
        \<and> (\<exists>ep. Ctx_RegionEpoch ctx = Some ep \<and> Version ep = Version (Region_RegionEpoch (lc_region c)))
        \<and> lc_appliedIndexTerm c = lc_term c
        \<and> (\<exists>a. lc_leaderLease c = Some a \<and> a < length mem
                 \<and> RemoteLease_Inspect (clock 0) (mem ! a) \<noteq> LeaseStateExpired))
   \<and> ((\<exists>err msg msgs. IsLeader c mem clock router ctx = Inr (err, msg # msgs)) \<longleftrightarrow>
        \<not> lc_invalid c
        \<and> (\<exists>p. Ctx_Peer ctx = Some p \<and> Peer_Id p = lc_peerID c)
        \<and> (Ctx_Term ctx = 0 \<or> lc_term c \<le> Ctx_Term ctx + 1)
        \<and> (\<exists>ep. Ctx_RegionEpoch ctx = Some ep \<and> Version ep = Version (Region_RegionEpoch (lc_region c)))
        \<and> (lc_appliedIndexTerm c \<noteq> lc_term c
             \<or> (\<exists>a. lc_leaderLease c = Some a \<and> a < length mem
                      \<and> RemoteLease_Inspect (clock 0) (mem ! a) = LeaseStateExpired)))
   \<and> (\<not> lc_invalid c \<and> Ctx_Peer ctx = Some pr \<and> Peer_Id pr = lc_peerID c
        \<and> (Ctx_Term ctx = 0 \<or> lc_term c \<le> Ctx_Term ctx + 1)
        \<and> Ctx_RegionEpoch ctx = Some e \<and> Version e = Version (Region_RegionEpoch (lc_region c))
        \<and> (lc_appliedIndexTerm c \<noteq> lc_term c
             \<or> (\<exists>a. lc_leaderLease c = Some a \<and> a < length mem
                      \<and> RemoteLease_Inspect (clock 0) (mem ! a) = LeaseStateExpired)) \<longrightarrow>
      IsLeader c mem clock router ctx
        = Inr (case router \<lparr>SendTime = clock 1, Msg_Request = snapCmd ctx\<rparr> of
                 Inl err \<Rightarrow> Some err
               | Inr resp \<Rightarrow> Resp_Error (Resp_Header resp),
               [\<lparr>SendTime = clock 1, Msg_Request = snapCmd ctx\<rparr>])
        \<and> Requests (snapCmd ctx) = [\<lparr>CmdType = CmdType_Snap\<rparr>])
   \<and> (\<not> lc_invalid c \<and> Ctx_Peer ctx = None \<longrightarrow>
      IsLeader c mem clock router ctx = Inl (Panic ''nil pointer dereference''))
   \<and> (\<not> lc_invalid c \<and> Ctx_Peer ctx = Some pr \<and> Peer_Id pr = lc_peerID c
        \<and> (Ctx_Term ctx = 0 \<or> lc_term c \<le> Ctx_Term ctx + 1)
        \<and> Ctx_RegionEpoch ctx = Some e \<and> Version e = Version (Region_RegionEpoch (lc_region c))
        \<and> lc_appliedIndexTerm c = lc_term c \<and> lc_leaderLease c = None \<longrightarrow>
      IsLeader c mem clock router ctx = Inl (Panic ''nil pointer dereference''))"
proof (intro conjI impI)
  assume "lc_invalid c"
  then show "IsLeader c mem clock router ctx = Inr (Some (ErrRegionNotFound (Ctx_RegionId ctx)), [])"
    by (simp add: IsLeader_def isExpired_def ErrToPbError_def)
next
  assume "\<not> lc_invalid c \<and> Ctx_Peer ctx = Some pr \<and> Peer_Id pr \<noteq> lc_peerID c"
  then show "IsLeader c mem clock router ctx = Inr (Some (Errorf ''mismatch peer id''), [])"
    by (simp add: IsLeader_def isExpired_def ErrToPbError_def)
next
  assume a: "\<not> lc_invalid c \<and> Ctx_Peer ctx = Some pr \<and> Peer_Id pr = lc_peerID c
        \<and> Ctx_Term ctx \<noteq> 0 \<and> unat (Ctx_Term ctx) + 1 < unat (lc_term c)"
  then have "\<not> lc_term c \<le> Ctx_Term ctx + 1" by (simp add: stale_word)
  with a show "IsLeader c mem clock router ctx = Inr (Some ErrStaleCommand, [])"
    by (simp add: IsLeader_def isExpired_def ErrToPbError_def)
next
  assume "\<not> lc_invalid c \<and> Ctx_Peer ctx = Some pr \<and> Peer_Id pr = lc_peerID c
        \<and> (Ctx_Term ctx = 0 \<or> lc_term c \<le> Ctx_Term ctx + 1)
        \<and> Ctx_RegionEpoch ctx = None"
  then show "IsLeader c mem clock router ctx = Inr (Some (Errorf ''missing epoch''), [])"
    by (auto simp: IsLeader_def isExpired_def ErrToPbError_def)
next
  assume "\<not> lc_invalid c \<and> Ctx_Peer ctx = Some pr \<and> Peer_Id pr = lc_peerID c
        \<and> (Ctx_Term ctx = 0 \<or> lc_term c \<le> Ctx_Term ctx + 1)
        \<and> Ctx_RegionEpoch ctx = Some e \<and> Version e \<noteq> Version (Region_RegionEpoch (lc_region c))"
  then show "IsLeader c mem clock router ctx = Inr (Some ErrEpochNotMatch, [])"
    by (auto simp: IsLeader_def isExpired_def ErrToPbError_def)
next
  show "isExpired c mem (ctx\<lparr>Ctx_RegionEpoch := Some (e\<lparr>ConfVer := v\<rparr>)\<rparr>) t
       = isExpired c mem (ctx\<lparr>Ctx_RegionEpoch := Some e\<rparr>) t"
    by (simp add: isExpired_def Let_def split: option.splits)
next
  show "IsLeader c mem clock router ctx = Inr (None, []) \<longleftrightarrow>
        \<not> lc_invalid c
        \<and> (\<exists>p. Ctx_Peer ctx = Some p \<and> Peer_Id p = lc_peerID c)
        \<and> (Ctx_Term ctx = 0 \<or> lc_term c \<le> Ctx_Term ctx + 1)
        \<and> (\<exists>ep. Ctx_RegionEpoch ctx = Some ep \<and> Version ep = Version (Region_RegionEpoch (lc_region c)))
        \<and> lc_appliedIndexTerm c = lc_term c
        \<and> (\<exists>a. lc_leaderLease c = Some a \<and> a < length mem
                 \<and> RemoteLease_Inspect (clock 0) (mem ! a) \<noteq> LeaseStateExpired)"
    unfolding IsLeader_None_iff isExpired_False_iff ..
next
  show "(\<exists>err msg msgs. IsLeader c mem clock router ctx = Inr (err, msg # msgs)) \<longleftrightarrow>
        \<not> lc_invalid c
        \<and> (\<exists>p. Ctx_Peer ctx = Some p \<and> Peer_Id p = lc_peerID c)
        \<and> (Ctx_Term ctx = 0 \<or> lc_term c \<le> Ctx_Term ctx + 1)
        \<and> (\<exists>ep. Ctx_RegionEpoch ctx = Some ep \<and> Version ep = Version (Region_RegionEpoch (lc_region c)))
        \<and> (lc_appliedIndexTerm c \<noteq> lc_term c
             \<or> (\<exists>a. lc_leaderLease c = Some a \<and> a < length mem
                      \<and> RemoteLease_Inspect (clock 0) (mem ! a) = LeaseStateExpired))"
    unfolding IsLeader_sends_iff isExpired_True_iff ..
next
  assume a: "\<not> lc_invalid c \<and> Ctx_Peer ctx = Some pr \<and> Peer_Id pr = lc_peerID c
        \<and> (Ctx_Term ctx = 0 \<or> lc_term c \<le> Ctx_Term ctx + 1)
        \<and> Ctx_RegionEpoch ctx = Some e \<and> Version e = Version (Region_RegionEpoch (lc_region c))
        \<and> (lc_appliedIndexTerm c \<noteq> lc_term c
             \<or> (\<exists>a. lc_leaderLease c = Some a \<and> a < length mem
                      \<and> RemoteLease_Inspect (clock 0) (mem ! a) = LeaseStateExpired))"
  then have "isExpired c mem ctx (clock 0) = Inr (Inr True)"
    by (auto simp: isExpired_def)
  then show "IsLeader c mem clock router ctx
        = Inr (case router \<lparr>SendTime = clock 1, Msg_Request = snapCmd ctx\<rparr> of
                 Inl err \<Rightarrow> Some err
               | Inr resp \<Rightarrow> Resp_Error (Resp_Header resp),
               [\<lparr>SendTime = clock 1, Msg_Request = snapCmd ctx\<rparr>])"
    by (simp add: IsLeader_def ErrToPbError_def Let_def split: sum.splits)
next
  show "Requests (snapCmd ctx) = [\<lparr>CmdType = CmdType_Snap\<rparr>]"
    by (simp add: snapCmd_def)
next
  assume "\<not> lc_invalid c \<and> Ctx_Peer ctx = None"
  then show "IsLeader c mem clock router ctx = Inl (Panic ''nil pointer dereference'')"
    by (simp add: IsLeader_def isExpired_def)
next
  assume "\<not> lc_invalid c \<and> Ctx_Peer ctx = Some pr \<and> Peer_Id pr = lc_peerID c
        \<and> (Ctx_Term ctx = 0 \<or> lc_term c \<le> Ctx_Term ctx + 1)
        \<and> Ctx_RegionEpoch ctx = Some e \<and> Version e = Version (Region_RegionEpoch (lc_region c))
        \<and> lc_appliedIndexTerm c = lc_term c \<and> lc_leaderLease c = None"
  then show "IsLeader c mem clock router ctx = Inl (Panic ''nil pointer dereference'')"
    by (auto simp: IsLeader_def isExpired_def)
qed

theorem C4_IsLeader_amended_witness:
  "IsLeader (ex_checker\<lparr>lc_invalid := True\<rparr>) [] ex_clock ex_router ex_ctx
     = Inr (Some (ErrRegionNotFound 1), [])
   \<and> IsLeader ex_checker [] ex_clock ex_router
        (ex_ctx\<lparr>Ctx_Peer := Some \<lparr>Peer_Id = 8, Peer_StoreId = 1, Peer_Role = PeerRole_Voter\<rparr>\<rparr>)
     = Inr (Some (Errorf ''mismatch peer id''), [])
   \<and> IsLeader ex_checker [] ex_clock ex_router (ex_ctx\<lparr>Ctx_Term := 3\<rparr>)
     = Inr (Some ErrStaleCommand, [])
   \<and> IsLeader ex_checker [] ex_clock ex_router (ex_ctx\<lparr>Ctx_RegionEpoch := None\<rparr>)
     = Inr (Some (Errorf ''missing epoch''), [])
   \<and> IsLeader ex_checker [] ex_clock ex_router
        (ex_ctx\<lparr>Ctx_RegionEpoch := Some \<lparr>ConfVer = 1, Version = 3\<rparr>\<rparr>)
     = Inr (Some ErrEpochNotMatch, [])
   \<and> IsLeader ex_checker [\<lparr>RL_term = 5, RL_bound = 100\<rparr>] ex_clock ex_router ex_ctx = Inr (None, [])
   \<and> IsLeader ex_checker [\<lparr>RL_term = 5, RL_bound = 5\<rparr>] ex_clock ex_router ex_ctx
     = Inr (None, [\<lparr>SendTime = 11, Msg_Request = snapCmd ex_ctx\<rparr>])
   \<and> IsLeader ex_checker [] ex_clock ex_router (ex_ctx\<lparr>Ctx_Peer := None\<rparr>)
     = Inl (Panic ''nil pointer dereference'')
   \<and> IsLeader (ex_checker\<lparr>lc_leaderLease := None\<rparr>) [] ex_clock ex_router ex_ctx
     = Inl (Panic ''nil pointer dereference'')"
  using
    C4_IsLeader_amended [where c = "ex_checker\<lparr>lc_invalid := True\<rparr>" and mem = "[]" and clock = ex_clock
      and router = ex_router and ctx = ex_ctx]
    C4_IsLeader_amended [where c = ex_checker and mem = "[]" and clock = ex_clock and router = ex_router
      and ctx = "ex_ctx\<lparr>Ctx_Peer := Some \<lparr>Peer_Id = 8, Peer_StoreId = 1, Peer_Role = PeerRole_Voter\<rparr>\<rparr>"
      and pr = "\<lparr>Peer_Id = 8, Peer_StoreId = 1, Peer_Role = PeerRole_Voter\<rparr>"]
    C4_IsLeader_amended [where c = ex_checker and mem = "[]" and clock = ex_clock and router = ex_router
      and ctx = "ex_ctx\<lparr>Ctx_Term := 3\<rparr>"
      and pr = "\<lparr>Peer_Id = 7, Peer_StoreId = 1, Peer_Role = PeerRole_Voter\<rparr>"]
    C4_IsLeader_amended [where c = ex_checker and mem = "[]" and clock = ex_clock and router = ex_router
      and ctx = "ex_ctx\<lparr>Ctx_RegionEpoch := None\<rparr>"
      and pr = "\<lparr>Peer_Id = 7, Peer_StoreId = 1, Peer_Role = PeerRole_Voter\<rparr>"]
    C4_IsLeader_amended [where c = ex_checker and mem = "[]" and clock = ex_clock and router = ex_router
      and ctx = "ex_ctx\<lparr>Ctx_RegionEpoch := Some \<lparr>ConfVer = 1, Version = 3\<rparr>\<rparr>"
      and pr = "\<lparr>Peer_Id = 7, Peer_StoreId = 1, Peer_Role = PeerRole_Voter\<rparr>"
      and e = "\<lparr>ConfVer = 1, Version = 3\<rparr>"]
    C4_IsLeader_amended [where c = ex_checker and mem = "[\<lparr>RL_term = 5, RL_bound = 100\<rparr>]" and clock = ex_clock
      and router = ex_router and ctx = ex_ctx]
    C4_IsLeader_amended [where c = ex_checker and mem = "[\<lparr>RL_term = 5, RL_bound = 5\<rparr>]" and clock = ex_clock
      and router = ex_router and ctx = ex_ctx
      and pr = "\<lparr>Peer_Id = 7, Peer_StoreId = 1, Peer_Role = PeerRole_Voter\<rparr>"
      and e = "\<lparr>ConfVer = 9, Version = 2\<rparr>"]
    C4_IsLeader_amended [where c = ex_checker and mem = "[]" and clock = ex_clock and router = ex_router
      and ctx = "ex_ctx\<lparr>Ctx_Peer := None\<rparr>"]
    C4_IsLeader_amended [where c = "ex_checker\<lparr>lc_leaderLease := None\<rparr>" and mem = "[]"
      and clock = ex_clock and router = ex_router and ctx = ex_ctx
      and pr = "\<lparr>Peer_Id = 7, Peer_StoreId = 1, Peer_Role = PeerRole_Voter\<rparr>"
      and e = "\<lparr>ConfVer = 9, Version = 2\<rparr>"]
  by (simp add: ex_checker_def ex_ctx_def ex_region_def ex_clock_def ex_router_def
      RemoteLease_Inspect_def)

text \<open>
  Claim C4 as stated fails: a request that passes the checks of peer id and term and
  carries no region epoch is not rejected for any of the reasons the claim names, the local
  read is not permitted, and no Snap command is sent to the router either: the answer is
  the error ``missing epoch''.
\<close>

theorem C4_IsLeader_counterexample:
  "IsLeader ex_checker [\<lparr>RL_term = 5, RL_bound = 100\<rparr>] ex_clock ex_router
     (ex_ctx\<lparr>Ctx_RegionEpoch := None\<rparr>)
     = Inr (Some (Errorf ''missing epoch''), [])
   \<and> \<not> lc_invalid ex_checker
   \<and> map_option Peer_Id (Ctx_Peer (ex_ctx\<lparr>Ctx_RegionEpoch := None\<rparr>)) = Some (lc_peerID ex_checker)
   \<and> lc_term ex_checker \<le> Ctx_Term (ex_ctx\<lparr>Ctx_RegionEpoch := None\<rparr>) + 1
   \<and> lc_appliedIndexTerm ex_checker = lc_term ex_checker
   \<and> RemoteLease_Inspect (ex_clock 0) \<lparr>RL_term = 5, RL_bound = 100\<rparr> = LeaseStateValid"
  by (simp add: IsLeader_def isExpired_def ErrToPbError_def RemoteLease_Inspect_def
      ex_checker_def ex_ctx_def ex_clock_def)



lemma Quorum_pos: "0 \<le> n \<Longrightarrow> Quorum n = n div 2 + 1"
  by (simp add: Quorum_def signed_divide_int_def sgn_if)

lemma countHealthyNode_loop_spec:
  "countHealthyNode_loop p progress healthy
     = healthy + int (spec_healthy (PeerStorage_truncatedIndex (peerStorage p)) progress)"
  by (induction progress arbitrary: healthy) (auto simp: spec_healthy_def)

lemma countHealthyNode_spec:
  "countHealthyNode p progress = int (spec_healthy (PeerStorage_truncatedIndex (peerStorage p)) progress)"
  by (simp add: countHealthyNode_def countHealthyNode_loop_spec)

lemma Quorum_spec: "Quorum (int n) = int (spec_quorum n)"
  by (simp add: Quorum_pos spec_quorum_def zdiv_int)

lemma healthy_quorum_check_None:
  "healthy_quorum_check p progress = None
     \<longleftrightarrow> spec_quorum (length progress)
           \<le> spec_healthy (PeerStorage_truncatedIndex (peerStorage p)) progress"
  by (simp add: healthy_quorum_check_def Let_def countHealthyNode_spec Quorum_spec)

subsection \<open>Conf change safety\<close>

text \<open>
  Claim C3, as amended. \<open>Quorum n\<close> is \<open>n div 2 + 1\<close> for \<open>n\<close> from 1 to 7. For a request
  that carries its peer, \<^verbatim>\<open>checkConfChange\<close> does not panic, and it accepts exactly when
  the request is well formed (no AddNode with the learner role, no AddLearnerNode without
  it), it does not remove the leader against the configuration, and one of these holds:
  the progress map has one entry; the change is AddLearnerNode; the change is RemoveNode of
  a peer with the learner role or of a peer that is not in the progress map; or, by the
  rule of the specification, the nodes whose match is at least the truncated index after
  the simulated change are at least the quorum of the map's size after it.
\<close>

theorem C3_checkConfChange_amended:
  assumes "GetChangePeerCmd (Some cmd) = Some cp" and "CP_Peer cp = Some pr"
  shows "(\<forall>n \<in> {1..7}. Quorum n = n div 2 + 1)
    \<and> (\<exists>r. checkConfChange cfg cmd p = Inr r)
    \<and> (checkConfChange cfg cmd p = Inr None \<longleftrightarrow>
         \<not> ((ChangeType cp = ConfChangeType_AddNode \<and> Peer_Role pr = PeerRole_Learner)
            \<or> (ChangeType cp = ConfChangeType_AddLearnerNode \<and> Peer_Role pr \<noteq> PeerRole_Learner))
         \<and> \<not> (ChangeType cp = ConfChangeType_RemoveNode \<and> \<not> AllowRemoveLeader cfg
               \<and> Peer_Id pr = PeerID p)
         \<and> (length (Status_Progress (RaftGroup p)) = 1
            \<or> ChangeType cp = ConfChangeType_AddLearnerNode
            \<or> (ChangeType cp = ConfChangeType_RemoveNode
                \<and> (Peer_Role pr = PeerRole_Learner
                    \<or> map_of (Status_Progress (RaftGroup p)) (Peer_Id pr) = None))
            \<or> spec_conf_change_safe (PeerStorage_truncatedIndex (peerStorage p)) (ChangeType cp) pr
                 (Status_Progress (RaftGroup p))))"
proof (intro conjI)
  show "\<forall>n \<in> {1..7}. Quorum n = n div 2 + 1" by (simp add: Quorum_pos)
next
  show "\<exists>r. checkConfChange cfg cmd p = Inr r"
    using assms
    by (auto simp: checkConfChange_def Let_def ChangePeerRequest_GetPeer_def
        split: ConfChangeType.splits option.splits)
next
  show "checkConfChange cfg cmd p = Inr None \<longleftrightarrow>
         \<not> ((ChangeType cp = ConfChangeType_AddNode \<and> Peer_Role pr = PeerRole_Learner)
            \<or> (ChangeType cp = ConfChangeType_AddLearnerNode \<and> Peer_Role pr \<noteq> PeerRole_Learner))
         \<and> \<not> (ChangeType cp = ConfChangeType_RemoveNode \<and> \<not> AllowRemoveLeader cfg
               \<and> Peer_Id pr = PeerID p)
         \<and> (length (Status_Progress (RaftGroup p)) = 1
            \<or> ChangeType cp = ConfChangeType_AddLearnerNode
            \<or> (ChangeType cp = ConfChangeType_RemoveNode
                \<and> (Peer_Role pr = PeerRole_Learner
                    \<or> map_of (Status_Progress (RaftGroup p)) (Peer_Id pr) = None))
            \<or> spec_conf_change_safe (PeerStorage_truncatedIndex (peerStorage p)) (ChangeType cp) pr
                 (Status_Progress (RaftGroup p)))"
    using assms
    by (cases "ChangeType cp")
       (auto simp: checkConfChange_def Let_def ChangePeerRequest_GetPeer_def
          ChangePeerRequest_GetChangeType_def spec_conf_change_safe_def simulate_change_def
          healthy_quorum_check_None
        split: option.splits)
qed

lemma ex_conf_change_facts:
  "GetChangePeerCmd (Some (ex_remove_node i))
     = Some \<lparr>ChangeType = ConfChangeType_RemoveNode, CP_Peer = Some (ex_voter i)\<rparr>"
  "Status_Progress (RaftGroup ex_peer3) = ex_progress3"
  "PeerStorage_truncatedIndex (peerStorage ex_peer3) = 10"
  "PeerID ex_peer3 = 1"
  "Peer_Id (ex_voter i) = i" "Peer_Role (ex_voter i) = PeerRole_Voter"
  "length ex_progress3 = 3"
  "map_of ex_progress3 2 \<noteq> None" "map_of ex_progress3 3 \<noteq> None"
  by (simp_all add: GetChangePeerCmd_def ex_remove_node_def ex_peer3_def ex_peer_def ex_raft_def
      ex_storage_def ex_progress3_def ex_voter_def PeerStorage_truncatedIndex_def PeerID_def)

theorem C3_checkConfChange_amended_witness:
  "GetChangePeerCmd (Some (ex_remove_node 3))
     = Some \<lparr>ChangeType = ConfChangeType_RemoveNode, CP_Peer = Some (ex_voter 3)\<rparr>
   \<and> length (Status_Progress (RaftGroup ex_peer3)) = 3
   \<and> spec_healthy 10 (simulate_change ConfChangeType_RemoveNode (ex_voter 3) ex_progress3) = 2
   \<and> spec_quorum (length (simulate_change ConfChangeType_RemoveNode (ex_voter 3) ex_progress3)) = 2
   \<and> checkConfChange ex_cfg (ex_remove_node 3) ex_peer3 = Inr None
   \<and> spec_healthy 10 (simulate_change ConfChangeType_RemoveNode (ex_voter 2) ex_progress3) = 1
   \<and> spec_quorum (length (simulate_change ConfChangeType_RemoveNode (ex_voter 2) ex_progress3)) = 2
   \<and> checkConfChange ex_cfg (ex_remove_node 2) ex_peer3 \<noteq> Inr None
   \<and> Quorum 3 = 2"
proof -
  have h: "spec_healthy 10 (simulate_change ConfChangeType_RemoveNode (ex_voter 3) ex_progress3) = 2"
    "spec_quorum (length (simulate_change ConfChangeType_RemoveNode (ex_voter 3) ex_progress3)) = 2"
    "spec_healthy 10 (simulate_change ConfChangeType_RemoveNode (ex_voter 2) ex_progress3) = 1"
    "spec_quorum (length (simulate_change ConfChangeType_RemoveNode (ex_voter 2) ex_progress3)) = 2"
    by (simp_all add: spec_healthy_def spec_quorum_def simulate_change_def ex_progress3_def
        ex_voter_def)
  from C3_checkConfChange_amended [OF ex_conf_change_facts(1), of 3 "ex_voter 3" ex_cfg ex_peer3]
  have a: "checkConfChange ex_cfg (ex_remove_node 3) ex_peer3 = Inr None"
    by (simp add: ex_conf_change_facts spec_conf_change_safe_def h ex_cfg_def)
  from C3_checkConfChange_amended [OF ex_conf_change_facts(1), of 2 "ex_voter 2" ex_cfg ex_peer3]
  have b: "checkConfChange ex_cfg (ex_remove_node 2) ex_peer3 \<noteq> Inr None"
    and q: "Quorum 3 = 2"
    by (simp_all add: ex_conf_change_facts spec_conf_change_safe_def h ex_cfg_def)
  from a b q h show ?thesis by (simp add: ex_conf_change_facts)
qed

text \<open>
  Claim C3 as stated fails: in a group of one node, AddNode is accepted although after
  the simulated change one node of two is healthy, below the quorum of two.
\<close>

theorem C3_checkConfChange_counterexample:
  "checkConfChange ex_cfg ex_add_node ex_peer = Inr None
   \<and> \<not> spec_conf_change_safe (PeerStorage_truncatedIndex (peerStorage ex_peer)) ConfChangeType_AddNode
          \<lparr>Peer_Id = 2, Peer_StoreId = 2, Peer_Role = PeerRole_Voter\<rparr>
          (Status_Progress (RaftGroup ex_peer))
   \<and> simulate_change ConfChangeType_AddNode \<lparr>Peer_Id = 2, Peer_StoreId = 2, Peer_Role = PeerRole_Voter\<rparr>
        (Status_Progress (RaftGroup ex_peer))
      = [(1, \<lparr>Match = 20, Next = 21, Pr_State = ProgressStateReplicate, IsLearner = False\<rparr>),
         (2, Progress_zero)]
   \<and> PeerStorage_truncatedIndex (peerStorage ex_peer) = 10
   \<and> countHealthyNode ex_peer [(1, \<lparr>Match = 20, Next = 21, Pr_State = ProgressStateReplicate, IsLearner = False\<rparr>),
         (2, Progress_zero)] = 1
   \<and> Quorum 2 = 2"
  by (simp add: checkConfChange_def GetChangePeerCmd_def ChangePeerRequest_GetChangeType_def
      ChangePeerRequest_GetPeer_def spec_conf_change_safe_def spec_healthy_def spec_quorum_def
      simulate_change_def
      countHealthyNode_def Quorum_def signed_divide_int_def PeerStorage_truncatedIndex_def
      PeerID_def Progress_zero_def
      ex_cfg_def ex_add_node_def ex_peer_def ex_raft_def ex_storage_def)








subsection \<open>Leader transfer\<close>





subsection \<open>ProposeNormal\<close>

text \<open>
  Claim C6, as amended. A call of \<^verbatim>\<open>ProposeNormal\<close> that returns ends in exactly one of
  these ways. (1) PendingMergeState is set and the command is not RollbackMerge: the
  merging-mode error, the peer unchanged. (2) \<^verbatim>\<open>PrePropose\<close> fails: its error, the peer
  unchanged. (3) The marshalled payload is larger than RaftEntryMaxSize:
  ErrRaftEntryTooLarge with the region id and the size, the peer unchanged. Otherwise the
  consensus Propose is called once, with the context byte and the payload, and then
  (4) Propose's own error is returned, or (5) ErrNotLeader when the next proposal index
  did not advance, or (6) the index \<open>last index + 1\<close> taken before the call.
\<close>

theorem C6_ProposeNormal_amended:
  assumes "ProposeNormal env cfg rlog p = Inr (r, p')"
  shows
    "(PendingMergeState p \<noteq> None \<and> RaftLog_AdminCmdType rlog \<noteq> AdminCmdType_RollbackMerge
        \<and> r = Inl (Errorf ''peer in merging mode, can't do proposal'') \<and> p' = p)
     \<or> (\<not> (PendingMergeState p \<noteq> None \<and> RaftLog_AdminCmdType rlog \<noteq> AdminCmdType_RollbackMerge)
        \<and> (\<exists>e. PrePropose env cfg rlog p = Inr (Inl e) \<and> r = Inl e) \<and> p' = p)
     \<or> (\<not> (PendingMergeState p \<noteq> None \<and> RaftLog_AdminCmdType rlog \<noteq> AdminCmdType_RollbackMerge)
        \<and> (\<exists>ctx rlog'. PrePropose env cfg rlog p = Inr (Inr (ctx, rlog'))
              \<and> RaftEntryMaxSize cfg < of_nat (length (Marshal env rlog'))
              \<and> r = Inl (ErrRaftEntryTooLarge (regionID p) (of_nat (length (Marshal env rlog')))))
        \<and> p' = p)
     \<or> (\<not> (PendingMergeState p \<noteq> None \<and> RaftLog_AdminCmdType rlog \<noteq> AdminCmdType_RollbackMerge)
        \<and> (\<exists>ctx rlog'. PrePropose env cfg rlog p = Inr (Inr (ctx, rlog'))
              \<and> \<not> RaftEntryMaxSize cfg < of_nat (length (Marshal env rlog'))
              \<and> raft_calls (RaftGroup p')
                   = raft_calls (RaftGroup p) @ [Call_Propose (ProposalContext_ToBytes ctx) (Marshal env rlog')]
              \<and> ((\<exists>e. fst (raft_step env (Call_Propose (ProposalContext_ToBytes ctx) (Marshal env rlog'))
                              (RaftGroup p)) = Some e \<and> r = Inl e)
                  \<or> (fst (raft_step env (Call_Propose (ProposalContext_ToBytes ctx) (Marshal env rlog'))
                              (RaftGroup p)) = None
                      \<and> nextProposalIndex p' = nextProposalIndex p
                      \<and> r = Inl (ErrNotLeader (regionID p)))
                  \<or> (fst (raft_step env (Call_Propose (ProposalContext_ToBytes ctx) (Marshal env rlog'))
                              (RaftGroup p)) = None
                      \<and> nextProposalIndex p' \<noteq> nextProposalIndex p
                      \<and> r = Inr (RaftLog_LastIndex (RaftGroup p) + 1)))))"
proof (cases "PendingMergeState p \<noteq> None \<and> RaftLog_AdminCmdType rlog \<noteq> AdminCmdType_RollbackMerge")
  case True
  with assms show ?thesis by (simp add: ProposeNormal_def)
next
  case nm: False
  show ?thesis
  proof (cases "PrePropose env cfg rlog p")
    case (Inl pn)
    with assms nm show ?thesis by (auto simp: ProposeNormal_def)
  next
    case (Inr x)
    show ?thesis
    proof (cases x)
      case (Inl e)
      with assms nm Inr show ?thesis by (auto simp: ProposeNormal_def)
    next
      case ok: (Inr y)
      obtain ctx rlog' where y: "y = (ctx, rlog')" by (cases y)
      note pp = Inr [unfolded ok y]
      show ?thesis
      proof (cases "RaftEntryMaxSize cfg < of_nat (length (Marshal env rlog'))")
        case True
        with assms nm pp show ?thesis by (auto simp: ProposeNormal_def Let_def)
      next
        case small: False
        obtain err rn where st:
          "raft_step env (Call_Propose (ProposalContext_ToBytes ctx) (Marshal env rlog')) (RaftGroup p) = (err, rn)"
          by (cases "raft_step env (Call_Propose (ProposalContext_ToBytes ctx) (Marshal env rlog')) (RaftGroup p)")
        from assms nm pp small st show ?thesis
          by (auto simp: ProposeNormal_def Let_def raft_call_def nextProposalIndex_def
              split: option.splits if_splits)
      qed
    qed
  qed
qed

lemma ex_ProposeNormal_put:
  "ProposeNormal ex_env_lead ex_cfg ex_put ex_peer
     = Inr (Inr 21, ex_peer\<lparr>RaftGroup := ex_raft\<lparr>RaftLog_LastIndex := 21,
                                   raft_calls := [Call_Propose [0] []]\<rparr>\<rparr>)"
  by (simp add: ProposeNormal_def PrePropose_def getSyncLogFromRequest_def raft_call_def
      nextProposalIndex_def ProposalContext_ToBytes_def RaftLog_AdminCmdType_def Let_def
      ex_env_lead_def ex_env_def ex_cfg_def ex_put_def ex_peer_def ex_raft_def)

theorem C6_ProposeNormal_amended_witness:
  "ProposeNormal ex_env_lead ex_cfg ex_put ex_peer
     = Inr (Inr 21, ex_peer\<lparr>RaftGroup := ex_raft\<lparr>RaftLog_LastIndex := 21,
                                   raft_calls := [Call_Propose [0] []]\<rparr>\<rparr>)
   \<and> PendingMergeState ex_peer = None
   \<and> RaftLog_LastIndex (RaftGroup ex_peer) + 1 = 21"
  using C6_ProposeNormal_amended [OF ex_ProposeNormal_put] ex_ProposeNormal_put
  by (simp add: ex_peer_def ex_raft_def)

text \<open>
  Claim C6 as stated fails: a PrepareMerge proposal on a group with a follower at match 0
  is refused by \<^verbatim>\<open>PrePropose\<close>, with no merge pending, a payload within the limit and no
  call of Propose.
\<close>

theorem C6_ProposeNormal_counterexample:
  "ProposeNormal ex_env ex_cfg ex_prepare_merge ex_peer_lag
     = Inr (Inl (Errorf ''log gap is too large, skip merge''), ex_peer_lag)
   \<and> PendingMergeState ex_peer_lag = None
   \<and> (of_nat (length (Marshal ex_env ex_prepare_merge)) :: u64) \<le> RaftEntryMaxSize ex_cfg
   \<and> raft_calls (RaftGroup ex_peer_lag) = []"
  by (simp add: ProposeNormal_def PrePropose_def preProposePrepareMerge_def GetMinProgress_def
      getSyncLogFromRequest_def RaftLog_AdminCmdType_def Let_def
      ex_env_def ex_cfg_def ex_prepare_merge_def ex_peer_lag_def ex_peer_def ex_raft_def)

lemma PrePropose_zero:
  "PrePropose env cfg (NewRequest RaftCmdRequest_zero) p = Inr (Inr (0, NewRequest RaftCmdRequest_zero))"
  by (simp add: PrePropose_def NewRequest_def RaftCmdRequest_zero_def getSyncLogFromRequest_def)

lemma ProposeNormal_zero:
  "\<exists>r p4. ProposeNormal env cfg (NewRequest RaftCmdRequest_zero) p = Inr (r, p4)
     \<and> pendingReads p4 = pendingReads p
     \<and> (raft_calls (RaftGroup p4) = raft_calls (RaftGroup p)
         \<or> (\<exists>c d. raft_calls (RaftGroup p4) = raft_calls (RaftGroup p) @ [Call_Propose c d]))"
  by (auto simp: ProposeNormal_def PrePropose_zero Let_def raft_call_def
      split: prod.splits option.splits)

lemma list_update_last:
  "xs \<noteq> [] \<Longrightarrow> xs[length xs - Suc 0 := x] = butlast xs @ [x]"
  by (induction xs rule: rev_induct) (simp_all add: list_update_append)

lemma readIndex_piggyback:
  assumes "preReadIndex (peer w) = None"
    and "reads (pendingReads (peer w)) \<noteq> []"
    and "renewLeaseTime (last (reads (pendingReads (peer w)))) = Some t"
    and "time_Now env (ticks w) < t + RaftStoreMaxLeaderLease cfg"
  shows "readIndex env cfg req errResp cb w
    = Inr (False, w\<lparr>ticks := Suc (ticks w),
                    peer := (peer w)\<lparr>pendingReads := (pendingReads (peer w))\<lparr>reads :=
                      butlast (reads (pendingReads (peer w)))
                      @ [(last (reads (pendingReads (peer w))))\<lparr>cmds :=
                           cmds (last (reads (pendingReads (peer w)))) @ [\<lparr>Req = req, Cb = cb\<rparr>]\<rparr>]\<rparr>\<rparr>\<rparr>)"
  using assms
  by (simp add: readIndex_def time_now_def Let_def last_conv_nth list_update_last)

lemma readIndex_fresh:
  assumes pre: "preReadIndex (peer w) = None"
    and g: "reads (pendingReads (peer w)) = []
            \<or> (renewLeaseTime (last (reads (pendingReads (peer w)))) = Some t
                \<and> \<not> time_Now env (ticks w) < t + RaftStoreMaxLeaderLease cfg)"
    and st: "raft_step env (Call_ReadIndex (BigEndian_PutUint64 (idAllocator (pendingReads (peer w)) + 1)))
               (RaftGroup (peer w)) = (err, rn)"
  shows "\<exists>b w'. readIndex env cfg req errResp cb w = Inr (b, w')
    \<and> idAllocator (pendingReads (peer w')) = idAllocator (pendingReads (peer w)) + 1
    \<and> (\<exists>rest. raft_calls (RaftGroup (peer w'))
          = raft_calls (RaftGroup (peer w))
            @ Call_ReadIndex (BigEndian_PutUint64 (idAllocator (pendingReads (peer w)) + 1)) # rest
          \<and> (\<forall>x. Call_ReadIndex x \<notin> set rest))
    \<and> (if Raft_PendingReadCount rn = Raft_PendingReadCount (RaftGroup (peer w))
           \<and> Raft_ReadyReadCount rn = Raft_ReadyReadCount (RaftGroup (peer w))
        then b = False
           \<and> reads (pendingReads (peer w')) = reads (pendingReads (peer w))
           \<and> cbDone w' = cbDone w @ [(cb, ErrRespStaleCommand (Raft_Term rn))]
        else b = True
           \<and> reads (pendingReads (peer w'))
               = reads (pendingReads (peer w))
                 @ [\<lparr>RIR_id = idAllocator (pendingReads (peer w)) + 1,
                     cmds = [\<lparr>Req = req, Cb = cb\<rparr>],
                     renewLeaseTime = Some (time_Now env (ticks w))\<rparr>]
           \<and> cbDone w' = cbDone w)"
proof -
  define q where "q = pendingReads (peer w)"
  define ctx where "ctx = BigEndian_PutUint64 (idAllocator q + 1)"
  define p2 where "p2 = (peer w)\<lparr>pendingReads := q\<lparr>idAllocator := idAllocator q + 1\<rparr>,
                                RaftGroup := rn\<lparr>raft_calls := raft_calls (RaftGroup (peer w)) @ [Call_ReadIndex ctx]\<rparr>\<rparr>"
  define p3 where "p3 = p2\<lparr>pendingReads := (pendingReads p2)\<lparr>reads := reads (pendingReads p2)
                           @ [\<lparr>RIR_id = idAllocator q + 1, cmds = [\<lparr>Req = req, Cb = cb\<rparr>],
                               renewLeaseTime = Some (time_Now env (ticks w))\<rparr>]\<rparr>\<rparr>"
  define w1 where "w1 = w\<lparr>ticks := Suc (ticks w)\<rparr>"
  have guard: "reads (pendingReads (peer w)) = []
      \<or> (reads (pendingReads (peer w)) \<noteq> []
          \<and> renewLeaseTime (reads (pendingReads (peer w)) ! (length (reads (pendingReads (peer w))) - Suc 0)) = Some t
          \<and> \<not> time_Now env (ticks w) < t + RaftStoreMaxLeaderLease cfg)"
    using g by (auto simp: last_conv_nth)
  have unfold: "readIndex env cfg req errResp cb w
    = (if Raft_PendingReadCount rn = Raft_PendingReadCount (RaftGroup (peer w))
          \<and> Raft_ReadyReadCount rn = Raft_ReadyReadCount (RaftGroup (peer w))
       then Inr (False, NotifyStaleReq (Peer_Term p2) cb (w1\<lparr>peer := p2\<rparr>))
       else if Lease_Inspect (time_Now env (ticks w)) (leaderLease p3) = LeaseStateSuspect
       then (case ProposeNormal env cfg (NewRequest RaftCmdRequest_zero) p3 of
               Inl pn \<Rightarrow> Inl pn
             | Inr (Inl e, p4) \<Rightarrow> Inr (True, w1\<lparr>peer := p4\<rparr>)
             | Inr (Inr index, p4) \<Rightarrow>
                 (let meta = \<lparr>PM_Index = index, PM_Term = Peer_Term p4,
                               PM_RenewLeaseTime = Some (time_Now env (ticks w))\<rparr>;
                      (ncb, w4) = new_Callback (w1\<lparr>peer := p4\<rparr>)
                  in Inr (True, PostPropose env meta False ncb w4)))
       else Inr (True, w1\<lparr>peer := p3\<rparr>))"
    using pre guard st
    unfolding q_def ctx_def p2_def p3_def w1_def
    by (auto simp: readIndex_def time_now_def NextID_def raft_call_def Let_def)
  have p3_reads: "reads (pendingReads p3)
      = reads (pendingReads (peer w))
        @ [\<lparr>RIR_id = idAllocator (pendingReads (peer w)) + 1, cmds = [\<lparr>Req = req, Cb = cb\<rparr>],
            renewLeaseTime = Some (time_Now env (ticks w))\<rparr>]"
    and p3_id: "idAllocator (pendingReads p3) = idAllocator (pendingReads (peer w)) + 1"
    and p3_calls: "raft_calls (RaftGroup p3)
      = raft_calls (RaftGroup (peer w))
        @ [Call_ReadIndex (BigEndian_PutUint64 (idAllocator (pendingReads (peer w)) + 1))]"
    by (simp_all add: p3_def p2_def q_def ctx_def)
  show ?thesis
  proof (cases "Raft_PendingReadCount rn = Raft_PendingReadCount (RaftGroup (peer w))
          \<and> Raft_ReadyReadCount rn = Raft_ReadyReadCount (RaftGroup (peer w))")
    case True
    then show ?thesis
      unfolding unfold
      by (auto simp: NotifyStaleReq_def Done_def p2_def w1_def q_def ctx_def Peer_Term_def)
  next
    case nd: False
    show ?thesis
    proof (cases "Lease_Inspect (time_Now env (ticks w)) (leaderLease p3) = LeaseStateSuspect")
      case False
      with nd p3_reads p3_id p3_calls show ?thesis
        unfolding unfold by (auto simp: w1_def)
    next
      case True
      from ProposeNormal_zero [of env cfg p3] obtain r p4
        where pn: "ProposeNormal env cfg (NewRequest RaftCmdRequest_zero) p3 = Inr (r, p4)"
          and pr: "pendingReads p4 = pendingReads p3"
          and calls: "raft_calls (RaftGroup p4) = raft_calls (RaftGroup p3)
                      \<or> (\<exists>c d. raft_calls (RaftGroup p4) = raft_calls (RaftGroup p3) @ [Call_Propose c d])"
        by blast
      from calls p3_calls have rest: "\<exists>rest. raft_calls (RaftGroup p4)
          = raft_calls (RaftGroup (peer w))
            @ Call_ReadIndex (BigEndian_PutUint64 (idAllocator (pendingReads (peer w)) + 1)) # rest
          \<and> (\<forall>x. Call_ReadIndex x \<notin> set rest)"
        by auto
      show ?thesis
      proof (cases r)
        case (Inl e)
        with nd True pn pr rest p3_reads p3_id show ?thesis
          unfolding unfold by (auto simp: w1_def)
      next
        case (Inr index)
        with nd True pn pr rest p3_reads p3_id show ?thesis
          unfolding unfold
          by (auto simp: w1_def new_Callback_def PostPropose_def time_now_def Let_def)
      qed
    qed
  qed
qed

lemma BigEndian_PutUint64_length: "length (BigEndian_PutUint64 v) = 8"
  by (simp add: BigEndian_PutUint64_def)

lemma BigEndian_roundtrip: "BigEndian_Uint64 (BigEndian_PutUint64 v) = v"
proof -
  define x :: u64 where "x = push_bit 56 (ucast (ucast (drop_bit 56 v) :: byte))
       OR push_bit 48 (ucast (ucast (drop_bit 48 v) :: byte))
       OR push_bit 40 (ucast (ucast (drop_bit 40 v) :: byte))
       OR push_bit 32 (ucast (ucast (drop_bit 32 v) :: byte))
       OR push_bit 24 (ucast (ucast (drop_bit 24 v) :: byte))
       OR push_bit 16 (ucast (ucast (drop_bit 16 v) :: byte))
       OR push_bit 8 (ucast (ucast (drop_bit 8 v) :: byte))
       OR ucast (ucast v :: byte)"
  have "BigEndian_Uint64 (BigEndian_PutUint64 v) = x"
    unfolding x_def by (simp add: BigEndian_Uint64_def BigEndian_PutUint64_def)
  also have "x = v"
  proof (rule bit_word_eqI)
    fix n :: nat
    assume "n < LENGTH(64)"
    then have n: "n < 64" by simp
    have d: "\<And>k. n - k < 64" using n by simp
    have a: "\<And>k. k \<le> n \<Longrightarrow> k + (n - k) = n" by simp
    consider "n < 8" | "8 \<le> n \<and> n < 16" | "16 \<le> n \<and> n < 24" | "24 \<le> n \<and> n < 32"
      | "32 \<le> n \<and> n < 40" | "40 \<le> n \<and> n < 48" | "48 \<le> n \<and> n < 56" | "56 \<le> n \<and> n < 64"
      using n by linarith
    then show "bit x n = bit v n"
      unfolding x_def by cases (auto simp add: bit_simps d a cong: conj_cong)
  qed
  finally show ?thesis .
qed

subsection \<open>readIndex\<close>

text \<open>
  Claim C5, as amended. For a peer that is splitting or merging, \<^verbatim>\<open>readIndex\<close> returns
  false, the callback gets the response bound to the error of \<^verbatim>\<open>preReadIndex\<close> and nothing
  else changes. For a peer that is neither: when the queue of
  pending reads is not empty and the last request's renewLeaseTime plus the maximal lease is
  after now, \<^verbatim>\<open>readIndex\<close> returns false, the pair of request and callback is appended to
  the commands of that last request, the queue keeps its length, no id is allocated and the
  consensus library is not called. Otherwise a fresh id (the allocator plus one) is
  allocated and RaftGroup.ReadIndex is called once, with the 8 big-endian bytes of the id;
  then, if neither the pending nor the ready read count of the library changed, the
  callback gets the stale-command response, the queue is left as it was and false is
  returned; else a request with that id, the one command and now as renewLeaseTime is
  appended to the queue and true is returned.
\<close>

theorem C5_readIndex_amended:
    "(preReadIndex (peer w) = Some e
      \<longrightarrow> readIndex env cfg req errResp cb w
            = Inr (False, w\<lparr>cbDone := cbDone w @ [(cb, BindRespError errResp e)]\<rparr>))
     \<and> (preReadIndex (peer w) = None
        \<and> reads (pendingReads (peer w)) \<noteq> []
        \<and> renewLeaseTime (last (reads (pendingReads (peer w)))) = Some t
        \<and> time_Now env (ticks w) < t + RaftStoreMaxLeaderLease cfg
      \<longrightarrow> (\<exists>w'. readIndex env cfg req errResp cb w = Inr (False, w')
             \<and> reads (pendingReads (peer w'))
                 = butlast (reads (pendingReads (peer w)))
                   @ [(last (reads (pendingReads (peer w))))\<lparr>cmds :=
                        cmds (last (reads (pendingReads (peer w)))) @ [\<lparr>Req = req, Cb = cb\<rparr>]\<rparr>]
             \<and> length (reads (pendingReads (peer w'))) = length (reads (pendingReads (peer w)))
             \<and> raft_calls (RaftGroup (peer w')) = raft_calls (RaftGroup (peer w))
             \<and> idAllocator (pendingReads (peer w')) = idAllocator (pendingReads (peer w))
             \<and> cbDone w' = cbDone w))
     \<and> (preReadIndex (peer w) = None
        \<and> (reads (pendingReads (peer w)) = []
          \<or> (renewLeaseTime (last (reads (pendingReads (peer w)))) = Some t
              \<and> \<not> time_Now env (ticks w) < t + RaftStoreMaxLeaderLease cfg))
      \<longrightarrow> (\<exists>b w'. readIndex env cfg req errResp cb w = Inr (b, w')
             \<and> idAllocator (pendingReads (peer w')) = idAllocator (pendingReads (peer w)) + 1
             \<and> (\<exists>rest. raft_calls (RaftGroup (peer w'))
                   = raft_calls (RaftGroup (peer w))
                     @ Call_ReadIndex (BigEndian_PutUint64 (idAllocator (pendingReads (peer w)) + 1)) # rest
                   \<and> (\<forall>x. Call_ReadIndex x \<notin> set rest))
             \<and> length (BigEndian_PutUint64 (idAllocator (pendingReads (peer w)) + 1)) = 8
             \<and> BigEndian_Uint64 (BigEndian_PutUint64 (idAllocator (pendingReads (peer w)) + 1))
                 = idAllocator (pendingReads (peer w)) + 1
             \<and> (if Raft_PendingReadCount
                       (snd (raft_step env
                          (Call_ReadIndex (BigEndian_PutUint64 (idAllocator (pendingReads (peer w)) + 1)))
                          (RaftGroup (peer w))))
                     = Raft_PendingReadCount (RaftGroup (peer w))
                   \<and> Raft_ReadyReadCount
                       (snd (raft_step env
                          (Call_ReadIndex (BigEndian_PutUint64 (idAllocator (pendingReads (peer w)) + 1)))
                          (RaftGroup (peer w))))
                     = Raft_ReadyReadCount (RaftGroup (peer w))
                 then b = False
                    \<and> reads (pendingReads (peer w')) = reads (pendingReads (peer w))
                    \<and> cbDone w' = cbDone w
                        @ [(cb, ErrRespStaleCommand (Raft_Term
                             (snd (raft_step env
                                (Call_ReadIndex (BigEndian_PutUint64 (idAllocator (pendingReads (peer w)) + 1)))
                                (RaftGroup (peer w))))))]
                 else b = True
                    \<and> reads (pendingReads (peer w'))
                        = reads (pendingReads (peer w))
                          @ [\<lparr>RIR_id = idAllocator (pendingReads (peer w)) + 1,
                              cmds = [\<lparr>Req = req, Cb = cb\<rparr>],
                              renewLeaseTime = Some (time_Now env (ticks w))\<rparr>]
                    \<and> cbDone w' = cbDone w)))"
proof (intro conjI impI)
  assume "preReadIndex (peer w) = Some e"
  then show "readIndex env cfg req errResp cb w
            = Inr (False, w\<lparr>cbDone := cbDone w @ [(cb, BindRespError errResp e)]\<rparr>)"
    by (simp add: readIndex_def Done_def)
next
  assume a: "preReadIndex (peer w) = None
        \<and> reads (pendingReads (peer w)) \<noteq> []
        \<and> renewLeaseTime (last (reads (pendingReads (peer w)))) = Some t
        \<and> time_Now env (ticks w) < t + RaftStoreMaxLeaderLease cfg"
  then have pre: "preReadIndex (peer w) = None"
    and a1: "reads (pendingReads (peer w)) \<noteq> []"
    and a2: "renewLeaseTime (last (reads (pendingReads (peer w)))) = Some t"
    and a3: "time_Now env (ticks w) < t + RaftStoreMaxLeaderLease cfg"
    by simp_all
  note readIndex_piggyback [OF pre a1 a2 a3, of req errResp cb]
  with a show "\<exists>w'. readIndex env cfg req errResp cb w = Inr (False, w')
             \<and> reads (pendingReads (peer w'))
                 = butlast (reads (pendingReads (peer w)))
                   @ [(last (reads (pendingReads (peer w))))\<lparr>cmds :=
                        cmds (last (reads (pendingReads (peer w)))) @ [\<lparr>Req = req, Cb = cb\<rparr>]\<rparr>]
             \<and> length (reads (pendingReads (peer w'))) = length (reads (pendingReads (peer w)))
             \<and> raft_calls (RaftGroup (peer w')) = raft_calls (RaftGroup (peer w))
             \<and> idAllocator (pendingReads (peer w')) = idAllocator (pendingReads (peer w))
             \<and> cbDone w' = cbDone w"
    by simp
next
  assume "preReadIndex (peer w) = None
        \<and> (reads (pendingReads (peer w)) = []
          \<or> (renewLeaseTime (last (reads (pendingReads (peer w)))) = Some t
              \<and> \<not> time_Now env (ticks w) < t + RaftStoreMaxLeaderLease cfg))"
  then have pre: "preReadIndex (peer w) = None"
    and g: "reads (pendingReads (peer w)) = []
          \<or> (renewLeaseTime (last (reads (pendingReads (peer w)))) = Some t
              \<and> \<not> time_Now env (ticks w) < t + RaftStoreMaxLeaderLease cfg)"
    by simp_all
  obtain err rn where st:
    "raft_step env (Call_ReadIndex (BigEndian_PutUint64 (idAllocator (pendingReads (peer w)) + 1)))
       (RaftGroup (peer w)) = (err, rn)"
    by (cases "raft_step env (Call_ReadIndex (BigEndian_PutUint64 (idAllocator (pendingReads (peer w)) + 1)))
       (RaftGroup (peer w))")
  from readIndex_fresh [OF pre g st, of req errResp cb]
  obtain b w' where r: "readIndex env cfg req errResp cb w = Inr (b, w')"
    and rest: "idAllocator (pendingReads (peer w')) = idAllocator (pendingReads (peer w)) + 1
    \<and> (\<exists>rest. raft_calls (RaftGroup (peer w'))
          = raft_calls (RaftGroup (peer w))
            @ Call_ReadIndex (BigEndian_PutUint64 (idAllocator (pendingReads (peer w)) + 1)) # rest
          \<and> (\<forall>x. Call_ReadIndex x \<notin> set rest))
    \<and> (if Raft_PendingReadCount rn = Raft_PendingReadCount (RaftGroup (peer w))
           \<and> Raft_ReadyReadCount rn = Raft_ReadyReadCount (RaftGroup (peer w))
        then b = False
           \<and> reads (pendingReads (peer w')) = reads (pendingReads (peer w))
           \<and> cbDone w' = cbDone w @ [(cb, ErrRespStaleCommand (Raft_Term rn))]
        else b = True
           \<and> reads (pendingReads (peer w'))
               = reads (pendingReads (peer w))
                 @ [\<lparr>RIR_id = idAllocator (pendingReads (peer w)) + 1,
                     cmds = [\<lparr>Req = req, Cb = cb\<rparr>],
                     renewLeaseTime = Some (time_Now env (ticks w))\<rparr>]
           \<and> cbDone w' = cbDone w)"
    by blast
  show "\<exists>b w'. readIndex env cfg req errResp cb w = Inr (b, w')
             \<and> idAllocator (pendingReads (peer w')) = idAllocator (pendingReads (peer w)) + 1
             \<and> (\<exists>rest. raft_calls (RaftGroup (peer w'))
                   = raft_calls (RaftGroup (peer w))
                     @ Call_ReadIndex (BigEndian_PutUint64 (idAllocator (pendingReads (peer w)) + 1)) # rest
                   \<and> (\<forall>x. Call_ReadIndex x \<notin> set rest))
             \<and> length (BigEndian_PutUint64 (idAllocator (pendingReads (peer w)) + 1)) = 8
             \<and> BigEndian_Uint64 (BigEndian_PutUint64 (idAllocator (pendingReads (peer w)) + 1))
                 = idAllocator (pendingReads (peer w)) + 1
             \<and> (if Raft_PendingReadCount
                       (snd (raft_step env
                          (Call_ReadIndex (BigEndian_PutUint64 (idAllocator (pendingReads (peer w)) + 1)))
                          (RaftGroup (peer w))))
                     = Raft_PendingReadCount (RaftGroup (peer w))
                   \<and> Raft_ReadyReadCount
                       (snd (raft_step env
                          (Call_ReadIndex (BigEndian_PutUint64 (idAllocator (pendingReads (peer w)) + 1)))
                          (RaftGroup (peer w))))
                     = Raft_ReadyReadCount (RaftGroup (peer w))
                 then b = False
                    \<and> reads (pendingReads (peer w')) = reads (pendingReads (peer w))
                    \<and> cbDone w' = cbDone w
                        @ [(cb, ErrRespStaleCommand (Raft_Term
                             (snd (raft_step env
                                (Call_ReadIndex (BigEndian_PutUint64 (idAllocator (pendingReads (peer w)) + 1)))
                                (RaftGroup (peer w))))))]
                 else b = True
                    \<and> reads (pendingReads (peer w'))
                        = reads (pendingReads (peer w))
                          @ [\<lparr>RIR_id = idAllocator (pendingReads (peer w)) + 1,
                              cmds = [\<lparr>Req = req, Cb = cb\<rparr>],
                              renewLeaseTime = Some (time_Now env (ticks w))\<rparr>]
                    \<and> cbDone w' = cbDone w)"
    unfolding st snd_conv
    using r rest BigEndian_PutUint64_length BigEndian_roundtrip by blast
qed

theorem C5_readIndex_amended_witness:
  "preReadIndex (peer ex_world_pending) = None
   \<and> reads (pendingReads (peer ex_world_pending)) \<noteq> []
   \<and> renewLeaseTime (last (reads (pendingReads (peer ex_world_pending)))) = Some 5
   \<and> time_Now ex_env (ticks ex_world_pending) < 5 + RaftStoreMaxLeaderLease ex_cfg
   \<and> (\<exists>w'. readIndex ex_env ex_cfg ex_snap_req ex_errResp (Callback 2) ex_world_pending = Inr (False, w')
          \<and> reads (pendingReads (peer w'))
              = [ex_read1\<lparr>cmds := cmds ex_read1 @ [\<lparr>Req = ex_snap_req, Cb = Callback 2\<rparr>]\<rparr>])
   \<and> preReadIndex (peer ex_world_split) = Some (Errorf ''can not read index due to split'')
   \<and> readIndex ex_env ex_cfg ex_snap_req ex_errResp (Callback 2) ex_world_split
       = Inr (False, ex_world_split\<lparr>cbDone :=
           [(Callback 2, BindRespError ex_errResp (Errorf ''can not read index due to split''))]\<rparr>)
   \<and> preReadIndex (peer ex_world) = None
   \<and> reads (pendingReads (peer ex_world)) = []
   \<and> (\<exists>w'. readIndex ex_env_lead ex_cfg ex_snap_req ex_errResp (Callback 2) ex_world = Inr (True, w')
          \<and> reads (pendingReads (peer w'))
              = [\<lparr>RIR_id = 1, cmds = [\<lparr>Req = ex_snap_req, Cb = Callback 2\<rparr>], renewLeaseTime = Some 10\<rparr>]
          \<and> (\<exists>rest. raft_calls (RaftGroup (peer w')) = Call_ReadIndex [0, 0, 0, 0, 0, 0, 0, 1] # rest))"
proof -
  have p1: "preReadIndex (peer ex_world_pending) = None"
    and p2: "preReadIndex (peer ex_world) = None"
    and p3: "preReadIndex (peer ex_world_split) = Some (Errorf ''can not read index due to split'')"
    and c3: "cbDone ex_world_split = []"
    by (simp_all add: preReadIndex_def isSplitting_def isMerging_def AppliedIndex_def
        ex_world_pending_def ex_world_split_def ex_world_def ex_peer_def ex_storage_def)
  have r1: "reads (pendingReads (peer ex_world_pending)) = [ex_read1]"
    and r2: "reads (pendingReads (peer ex_world)) = []"
    and i2: "idAllocator (pendingReads (peer ex_world)) = 0"
    and c2: "raft_calls (RaftGroup (peer ex_world)) = []"
    and t1: "time_Now ex_env (ticks ex_world_pending) = 10"
    and t2: "time_Now ex_env_lead (ticks ex_world) = 10"
    and m: "RaftStoreMaxLeaderLease ex_cfg = 100"
    and l: "renewLeaseTime ex_read1 = Some 5"
    by (simp_all add: ex_world_pending_def ex_world_def ex_peer_def ex_raft_def ex_env_def ex_env_lead_def
        ex_cfg_def ex_read1_def)
  have s2: "raft_step ex_env_lead (Call_ReadIndex [0, 0, 0, 0, 0, 0, 0, 1]) (RaftGroup (peer ex_world))
              = (None, ex_raft\<lparr>Raft_PendingReadCount := 1\<rparr>)"
    and g2: "RaftGroup (peer ex_world) = ex_raft"
    by (simp_all add: ex_env_lead_def ex_env_def ex_world_def ex_peer_def ex_raft_def)
  have b: "BigEndian_PutUint64 1 = [0, 0, 0, 0, 0, 0, 0, 1]"
    by (simp add: BigEndian_PutUint64_def)
  from C5_readIndex_amended [where w = ex_world_pending and t = 5 and env = ex_env and cfg = ex_cfg
      and req = ex_snap_req and errResp = ex_errResp and cb = "Callback 2"] p1
  have w1: "\<exists>w'. readIndex ex_env ex_cfg ex_snap_req ex_errResp (Callback 2) ex_world_pending = Inr (False, w')
          \<and> reads (pendingReads (peer w'))
              = [ex_read1\<lparr>cmds := cmds ex_read1 @ [\<lparr>Req = ex_snap_req, Cb = Callback 2\<rparr>]\<rparr>]"
    by (simp add: r1 t1 m l) blast
  from C5_readIndex_amended [where w = ex_world and t = 0 and env = ex_env_lead and cfg = ex_cfg
      and req = ex_snap_req and errResp = ex_errResp and cb = "Callback 2"] p2
  have w2: "\<exists>w'. readIndex ex_env_lead ex_cfg ex_snap_req ex_errResp (Callback 2) ex_world = Inr (True, w')
          \<and> reads (pendingReads (peer w'))
              = [\<lparr>RIR_id = 1, cmds = [\<lparr>Req = ex_snap_req, Cb = Callback 2\<rparr>], renewLeaseTime = Some 10\<rparr>]
          \<and> (\<exists>rest. raft_calls (RaftGroup (peer w')) = Call_ReadIndex [0, 0, 0, 0, 0, 0, 0, 1] # rest)"
    by (simp add: r2 i2 c2 t2 s2 b) (auto simp: g2 ex_raft_def r2 i2 t2)
  from C5_readIndex_amended [where w = ex_world_split and env = ex_env and cfg = ex_cfg
      and req = ex_snap_req and errResp = ex_errResp and cb = "Callback 2"
      and e = "Errorf ''can not read index due to split''"] p3 c3
  have w3: "readIndex ex_env ex_cfg ex_snap_req ex_errResp (Callback 2) ex_world_split
       = Inr (False, ex_world_split\<lparr>cbDone :=
           [(Callback 2, BindRespError ex_errResp (Errorf ''can not read index due to split''))]\<rparr>)"
    by simp
  from p1 p2 p3 r1 r2 t1 m l w1 w2 w3 show ?thesis by simp
qed

text \<open>
  Claim C5 as stated fails twice. A splitting peer whose last pending read is within the
  lease does not get the pair appended: the callback gets the split error. And a read the
  library drops (the counts unchanged) is allocated an id and passed to ReadIndex, but no
  request is appended to the queue.
\<close>

theorem C5_readIndex_counterexample:
  "readIndex ex_env ex_cfg ex_snap_req ex_errResp (Callback 2) ex_world_split
     = Inr (False, ex_world_split\<lparr>cbDone :=
         [(Callback 2, BindRespError ex_errResp (Errorf ''can not read index due to split''))]\<rparr>)
   \<and> reads (pendingReads (peer ex_world_split)) = [ex_read1]
   \<and> renewLeaseTime (last (reads (pendingReads (peer ex_world_split)))) = Some 5
   \<and> time_Now ex_env (ticks ex_world_split) < 5 + RaftStoreMaxLeaderLease ex_cfg
   \<and> map_sum id (\<lambda>(b, w'). (b, reads (pendingReads (peer w')), raft_calls (RaftGroup (peer w'))))
        (readIndex ex_env ex_cfg ex_snap_req ex_errResp (Callback 2) ex_world)
      = Inr (False, [], [Call_ReadIndex [0, 0, 0, 0, 0, 0, 0, 1]])
   \<and> reads (pendingReads (peer ex_world)) = []"
  by (simp add: readIndex_def preReadIndex_def isSplitting_def isMerging_def AppliedIndex_def
      Done_def NotifyStaleReq_def time_now_def NextID_def raft_call_def BigEndian_PutUint64_def Let_def
      ex_world_split_def ex_world_def ex_peer_def ex_storage_def ex_raft_def ex_env_def ex_cfg_def
      ex_read1_def)

subsection \<open>The count of ready reads\<close>





















subsection \<open>HandleRaftReadyApply\<close>

text \<open>
  Claim C1 fails on the code. The claim: for a committed entry of the current term whose
  context holds PREPARE_MERGE, \<^verbatim>\<open>HandleRaftReadyApply\<close> on a leader sets
  lastCommittedPrepareMergeIdx to the entry's index and suspects the lease (and SPLIT sets
  lastCommittedSplitIdx). The code parses the constant \<^verbatim>\<open>[]byte{0}\<close> in place of the entry's
  context, so no flag is ever found: for the leader of term 5 and a committed entry of term
  5 at index 21 with the PREPARE_MERGE context, the entry is handed to the apply worker,
  lastCommittedPrepareMergeIdx stays 0 and the lease still inspects as Valid; with the
  SPLIT context lastCommittedSplitIdx stays 0.
\<close>

theorem C1_HandleRaftReadyApply_ignores_context:
  "Peer_IsLeader (peer ex_world)
   \<and> Entry_Term ex_entry_merge = Peer_Term (peer ex_world)
   \<and> map_sum id (map_option (\<lambda>c. ProposalContext_contains c ProposalContextPrepareMerge))
        (NewProposalContextFromBytes (Entry_Context ex_entry_merge)) = Inr (Some True)
   \<and> map_sum id (map_option (\<lambda>c. ProposalContext_contains c ProposalContextSplit))
        (NewProposalContextFromBytes (Entry_Context ex_entry_split)) = Inr (Some True)
   \<and> HandleRaftReadyApply ex_env (ex_ready_entry ex_entry_merge) ex_world
       = Inr (ex_ready_entry ex_entry_merge\<lparr>CommittedEntries := []\<rparr>,
              ex_world\<lparr>peer := ex_peer\<lparr>LastApplyingIdx := 21, lastUrgentProposalIdx := - 1,
                   RaftGroup := ex_raft\<lparr>raft_calls :=
                     [Call_SkipBcastCommit True,
                      Call_Advance (ex_ready_entry ex_entry_merge\<lparr>CommittedEntries := []\<rparr>)]\<rparr>\<rparr>,
                 applyMsgs := [\<lparr>apply_regionID = 1, apply_term = 5, apply_entries = [ex_entry_merge]\<rparr>]\<rparr>)
   \<and> lastCommittedPrepareMergeIdx
        (peer (snd (projr (HandleRaftReadyApply ex_env (ex_ready_entry ex_entry_merge) ex_world)))) = 0
   \<and> Lease_Inspect (time_Now ex_env
          (ticks (snd (projr (HandleRaftReadyApply ex_env (ex_ready_entry ex_entry_merge) ex_world)))))
        (leaderLease (peer (snd (projr
           (HandleRaftReadyApply ex_env (ex_ready_entry ex_entry_merge) ex_world)))))
       = LeaseStateValid
   \<and> lastCommittedSplitIdx
        (peer (snd (projr (HandleRaftReadyApply ex_env (ex_ready_entry ex_entry_split) ex_world)))) = 0"
  by (simp add: HandleRaftReadyApply_def ApplyReads_def raft_call_def
      findProposeTime.simps [of _ _ "[]"] ProposalQueue_PopFront_def
      NewProposalContextFromBytes_def ProposalContext_contains_def ProposalContext_ToBytes_def
      ProposalContextSplit_def ProposalContextPrepareMerge_def
      Peer_IsLeader_def Peer_Term_def IsApplyingSnapshot_def readyToHandleRead_def
      isSplitting_def isMerging_def AppliedIndex_def Lease_Inspect_def Let_def
      ex_entry_merge_def ex_entry_split_def ex_ready_entry_def
      ex_world_def ex_peer_def ex_raft_def ex_storage_def ex_lease_def ex_env_def)

subsection \<open>Destroy\<close>

lemma notify_cmds_removed_frame:
  "peer (notify_cmds_removed rid cs w) = peer w
   \<and> ticks (notify_cmds_removed rid cs w) = ticks w
   \<and> storageOps (notify_cmds_removed rid cs w) = storageOps w
   \<and> cbDone (notify_cmds_removed rid cs w) = cbDone w @ map (region_removed rid) (map Cb cs)"
  by (induction cs arbitrary: w)
     (simp_all add: NotifyReqRegionRemoved_def Done_def region_removed_def Let_def)

lemma notify_reads_removed_frame:
  "peer (notify_reads_removed rid rs w) = peer w
   \<and> ticks (notify_reads_removed rid rs w) = ticks w
   \<and> storageOps (notify_reads_removed rid rs w) = storageOps w
   \<and> cbDone (notify_reads_removed rid rs w)
       = cbDone w @ map (region_removed rid) (map Cb (concat (map cmds rs)))"
  by (induction rs arbitrary: w) (simp_all add: notify_cmds_removed_frame)

lemma notify_proposals_removed_frame:
  "peer (notify_proposals_removed rid ps w) = peer w
   \<and> ticks (notify_proposals_removed rid ps w) = ticks w
   \<and> storageOps (notify_proposals_removed rid ps w) = storageOps w
   \<and> cbDone (notify_proposals_removed rid ps w)
       = cbDone w @ map (region_removed rid) (map prop_cb ps)"
  by (induction ps arbitrary: w)
     (simp_all add: NotifyReqRegionRemoved_def Done_def region_removed_def Let_def)

lemma Destroy_ok:
  assumes "Destroy env keepData w = (None, w')"
  shows "cbDone w' = cbDone w
           @ map (region_removed (Region_Id (Peer_Region (peer w))))
               (map Cb (concat (map cmds (reads (pendingReads (peer w)))))
                @ map prop_cb (applyProposals (peer w)))"
    and "reads (pendingReads (peer w')) = []"
    and "applyProposals (peer w') = []"
    and "readyCnt (pendingReads (peer w')) = readyCnt (pendingReads (peer w))"
  using assms
  by (auto simp: Destroy_def time_now_def storage_op_def Let_def
      notify_reads_removed_frame notify_proposals_removed_frame
      split: option.splits if_splits)

lemma Destroy_error:
  assumes "Destroy env keepData w = (Some err, w')"
  shows "cbDone w' = cbDone w" and "peer w' = peer w"
  using assms
  by (auto simp: Destroy_def time_now_def storage_op_def Let_def split: option.splits if_splits)

lemma Destroy_returns:
  "fst (Destroy env keepData w) =
     (case clearMeta env (peerStorage (peer w)) of
        Some err \<Rightarrow> Some err
      | None \<Rightarrow>
          (case WriteToKV env (storageOps w @ [Op_clearMeta,
                  Op_WritePeerState (Peer_Region (peer w)) PeerState_Tombstone
                    (PendingMergeState (peer w))]) of
             Some err \<Rightarrow> Some err
           | None \<Rightarrow>
               WriteToRaft env (storageOps w @ [Op_clearMeta,
                  Op_WritePeerState (Peer_Region (peer w)) PeerState_Tombstone
                    (PendingMergeState (peer w)), Op_WriteToKV])))"
  by (auto simp: Destroy_def time_now_def storage_op_def Let_def split: option.splits)

text \<open>
  Claim C7, as amended. When \<^verbatim>\<open>Destroy\<close> returns nil, every command of every request in the
  queue of pending reads, and then every buffered apply proposal, has been answered, in
  order, with the RegionNotFound error carrying the region's id, and the queue and the
  buffer are empty. When \<^verbatim>\<open>Destroy\<close> returns an error, no callback has been answered and the
  peer is as it was. It returns the error of \<^verbatim>\<open>clearMeta\<close>, else that of \<^verbatim>\<open>WriteToKV\<close>, else
  that of \<^verbatim>\<open>WriteToRaft\<close>, and nil when the three succeed.
\<close>

theorem C7_Destroy_amended:
  "(Destroy env keepData w = (None, w') \<longrightarrow>
      cbDone w' = cbDone w
         @ map (region_removed (Region_Id (Peer_Region (peer w))))
             (map Cb (concat (map cmds (reads (pendingReads (peer w)))))
              @ map prop_cb (applyProposals (peer w)))
      \<and> reads (pendingReads (peer w')) = []
      \<and> applyProposals (peer w') = [])
   \<and> (Destroy env keepData w = (Some err, w') \<longrightarrow> cbDone w' = cbDone w \<and> peer w' = peer w)
   \<and> fst (Destroy env keepData w) =
       (case clearMeta env (peerStorage (peer w)) of
          Some err \<Rightarrow> Some err
        | None \<Rightarrow>
            (case WriteToKV env (storageOps w @ [Op_clearMeta,
                    Op_WritePeerState (Peer_Region (peer w)) PeerState_Tombstone
                      (PendingMergeState (peer w))]) of
               Some err \<Rightarrow> Some err
             | None \<Rightarrow>
                 WriteToRaft env (storageOps w @ [Op_clearMeta,
                    Op_WritePeerState (Peer_Region (peer w)) PeerState_Tombstone
                      (PendingMergeState (peer w)), Op_WriteToKV])))"
proof (intro conjI impI)
  assume a: "Destroy env keepData w = (None, w')"
  from Destroy_ok(1) [OF a]
  show "cbDone w' = cbDone w
         @ map (region_removed (Region_Id (Peer_Region (peer w))))
             (map Cb (concat (map cmds (reads (pendingReads (peer w)))))
              @ map prop_cb (applyProposals (peer w)))" .
  from Destroy_ok(2) [OF a] show "reads (pendingReads (peer w')) = []" .
  from Destroy_ok(3) [OF a] show "applyProposals (peer w') = []" .
next
  assume b: "Destroy env keepData w = (Some err, w')"
  from Destroy_error(1) [OF b] show "cbDone w' = cbDone w" .
  from Destroy_error(2) [OF b] show "peer w' = peer w" .
next
  show "fst (Destroy env keepData w) =
       (case clearMeta env (peerStorage (peer w)) of
          Some err \<Rightarrow> Some err
        | None \<Rightarrow>
            (case WriteToKV env (storageOps w @ [Op_clearMeta,
                    Op_WritePeerState (Peer_Region (peer w)) PeerState_Tombstone
                      (PendingMergeState (peer w))]) of
               Some err \<Rightarrow> Some err
             | None \<Rightarrow>
                 WriteToRaft env (storageOps w @ [Op_clearMeta,
                    Op_WritePeerState (Peer_Region (peer w)) PeerState_Tombstone
                      (PendingMergeState (peer w)), Op_WriteToKV])))"
    by (rule Destroy_returns)
qed

lemma ex_destroy_facts:
  "clearMeta ex_env ps = None" "WriteToKV ex_env ops = None" "WriteToRaft ex_env ops = None"
  "clearMeta ex_env_io ps = None" "WriteToKV ex_env_io ops = Some (Errorf ''write to kv'')"
  "cbDone ex_world_destroy = []"
  "Region_Id (Peer_Region (peer ex_world_destroy)) = 1"
  "reads (pendingReads (peer ex_world_destroy)) = [ex_read1]"
  "applyProposals (peer ex_world_destroy)
     = [\<lparr>isConfChange = False, prop_index = 21, prop_term = 5, prop_cb = Callback 2\<rparr>]"
  "cmds ex_read1 = [\<lparr>Req = ex_snap_req, Cb = Callback 1\<rparr>]"
  by (simp_all add: ex_env_def ex_env_io_def ex_world_destroy_def ex_world_def ex_peer_def
      ex_storage_def ex_region_def ex_read1_def Peer_Region_def)

theorem C7_Destroy_amended_witness:
  "fst (Destroy ex_env False ex_world_destroy) = None
   \<and> cbDone (snd (Destroy ex_env False ex_world_destroy))
       = [(Callback 1, ErrResp (ErrRegionNotFound 1)), (Callback 2, ErrResp (ErrRegionNotFound 1))]
   \<and> reads (pendingReads (peer (snd (Destroy ex_env False ex_world_destroy)))) = []
   \<and> applyProposals (peer (snd (Destroy ex_env False ex_world_destroy))) = []
   \<and> fst (Destroy ex_env_io False ex_world_destroy) = Some (Errorf ''write to kv'')
   \<and> cbDone (snd (Destroy ex_env_io False ex_world_destroy)) = []
   \<and> peer (snd (Destroy ex_env_io False ex_world_destroy)) = peer ex_world_destroy"
proof -
  note t1 = C7_Destroy_amended [where env = ex_env and keepData = False and w = ex_world_destroy
      and w' = "snd (Destroy ex_env False ex_world_destroy)"]
  note t2 = C7_Destroy_amended [where env = ex_env_io and keepData = False and w = ex_world_destroy
      and w' = "snd (Destroy ex_env_io False ex_world_destroy)" and err = "Errorf ''write to kv''"]
  from t1 have f1: "fst (Destroy ex_env False ex_world_destroy) = None"
    by (simp add: ex_destroy_facts)
  from t2 have f2: "fst (Destroy ex_env_io False ex_world_destroy) = Some (Errorf ''write to kv'')"
    by (simp add: ex_destroy_facts)
  from f1 have e1: "Destroy ex_env False ex_world_destroy
      = (None, snd (Destroy ex_env False ex_world_destroy))"
    by (simp add: prod_eq_iff)
  from f2 have e2: "Destroy ex_env_io False ex_world_destroy
      = (Some (Errorf ''write to kv''), snd (Destroy ex_env_io False ex_world_destroy))"
    by (simp add: prod_eq_iff)
  from t1 e1 have a: "cbDone (snd (Destroy ex_env False ex_world_destroy))
       = [(Callback 1, ErrResp (ErrRegionNotFound 1)), (Callback 2, ErrResp (ErrRegionNotFound 1))]
   \<and> reads (pendingReads (peer (snd (Destroy ex_env False ex_world_destroy)))) = []
   \<and> applyProposals (peer (snd (Destroy ex_env False ex_world_destroy))) = []"
    by (simp add: ex_destroy_facts region_removed_def)
  from t2 e2 have b: "cbDone (snd (Destroy ex_env_io False ex_world_destroy)) = []
   \<and> peer (snd (Destroy ex_env_io False ex_world_destroy)) = peer ex_world_destroy"
    by (simp add: ex_destroy_facts)
  from f1 f2 a b show ?thesis by simp
qed

text \<open>
  Claim C7 as stated fails when the store returns an error: with a failing
  \<^verbatim>\<open>WriteToKV\<close>, \<^verbatim>\<open>Destroy\<close> returns that error after the tombstone was put in the batch; the
  pending read and the apply proposal stay where they were and no callback is answered.
\<close>

theorem C7_Destroy_counterexample:
  "Destroy ex_env_io False ex_world_destroy
     = (Some (Errorf ''write to kv''),
        ex_world_destroy\<lparr>ticks := 1,
          storageOps := [Op_clearMeta, Op_WritePeerState ex_region PeerState_Tombstone None,
                         Op_WriteToKV]\<rparr>)
   \<and> reads (pendingReads (peer ex_world_destroy)) = [ex_read1]
   \<and> cmds ex_read1 = [\<lparr>Req = ex_snap_req, Cb = Callback 1\<rparr>]
   \<and> applyProposals (peer ex_world_destroy)
       = [\<lparr>isConfChange = False, prop_index = 21, prop_term = 5, prop_cb = Callback 2\<rparr>]
   \<and> cbDone ex_world_destroy = []"
  by (simp add: Destroy_def time_now_def storage_op_def Peer_Region_def Let_def
      ex_env_io_def ex_env_def ex_world_destroy_def ex_world_def ex_peer_def ex_storage_def
      ex_read1_def)

subsection \<open>Request inspection\<close>















end
